theory Spec2Isabelle
  imports Complex_Main "HOL-Library.Char_ord" "HOL-Library.List_Lexorder"
    "HOL-Library.Option_ord"
begin

section \<open>Library management API: the book catalog and its request handlers\<close>

text \<open>
  The repository holds two servers with the same HTTP surface: an in-memory one
  (\<^verbatim>\<open>library-api-server.js\<close>, the store is the module-level array \<^verbatim>\<open>books\<close>) and a
  SQLite one (\<^verbatim>\<open>library-api-server-with-db.js\<close>, the store is the table \<^verbatim>\<open>books\<close>).
  Each handler is embedded as a function from the store and the request to the response
  (and the new store where the handler writes).

  Modelling conventions, all of them visible in the definitions below:
  \<^item> The JavaScript numbers that the handlers compute with are \<^verbatim>\<open>NaN\<close>, the two
    infinities, or integer-valued doubles (type \<open>number\<close>); the result of every
    operation is rounded to the nearest double, as IEEE 754 does. The sign of zero is
    not kept: a slice index and a JSON number do not show it. In a JSON response
    \<^verbatim>\<open>NaN\<close> and the infinities are serialised as \<^verbatim>\<open>null\<close>, which is \<open>None\<close> in an
    \<open>int option\<close>. The numbers stored in a book (id, year, copies) are integers.
  \<^item> Strings are byte strings (\<open>char list\<close>), the UTF-8 form of the text. Equality,
    substring search, SQLite's comparisons and SQLite's \<^verbatim>\<open>LIKE\<close> (which folds the case of
    ASCII letters only) are exact on them. \<^verbatim>\<open>toLowerCase\<close>, \<^verbatim>\<open>toUpperCase\<close> and the order
    of JavaScript's \<^verbatim>\<open><\<close> on strings are those of ASCII text (\<open>ascii_text\<close> below); a
    property that depends on them is stated for ASCII text.
  \<^item> Query parameters and path segments are strings (\<open>None\<close> when the parameter is not
    in the URL). Body fields are strings or integers; \<open>None\<close> is a missing field, and for
    the string fields and the year also \<^verbatim>\<open>null\<close>, which the handlers read alike. A
    \<^verbatim>\<open>copies_total\<close> that is \<^verbatim>\<open>null\<close> or not a number is outside the model.
\<close>

subsection \<open>Data model\<close>

record book =
  book_id :: int
  title :: string
  author :: string
  isbn :: string
  published_year :: "int option"
  category :: "string option"
  copies_available :: int
  copies_total :: int
  created_at :: string
  updated_at :: string

text \<open>\<^verbatim>\<open>req.query\<close> of \<^verbatim>\<open>GET /books\<close>.\<close>

record query =
  q_category :: "string option"
  q_author :: "string option"
  q_available :: "string option"
  q_sort_by :: "string option"
  q_order :: "string option"
  q_page :: "string option"
  q_limit :: "string option"

text \<open>\<^verbatim>\<open>req.body\<close> of \<^verbatim>\<open>POST /books\<close> and \<^verbatim>\<open>PUT /books/:id\<close>.\<close>

record draft =
  d_title :: "string option"
  d_author :: "string option"
  d_isbn :: "string option"
  d_published_year :: "int option"
  d_category :: "string option"
  d_copies_total :: "int option"

text \<open>
  The error envelope \<^verbatim>\<open>{error: {code, message, details}}\<close>: the code, with the part of
  the details that identifies the failure.
\<close>

datatype error_code =
    INVALID_PARAMETER string
  | VALIDATION_ERROR "string list"
  | DUPLICATE_ISBN int
  | RESOURCE_NOT_FOUND
  | DATABASE_ERROR

text \<open>
  A handler that does not answer with a success either sends an error envelope with an
  HTTP status (\<open>Rejected\<close>) or, in the in-memory server that has no \<^verbatim>\<open>try\<close>, lets a
  \<^verbatim>\<open>TypeError\<close> escape (\<open>Thrown\<close>).
\<close>

datatype failure = Rejected nat error_code | Thrown

text \<open>The body of a successful \<^verbatim>\<open>GET /books\<close>: \<^verbatim>\<open>{data, pagination}\<close>.\<close>

record page_response =
  data :: "book list"
  current_page :: "int option"
  total_pages :: "int option"
  total_items :: int
  items_per_page :: "int option"

subsection \<open>JavaScript primitives used by the handlers\<close>

text \<open>
  \<^verbatim>\<open>String.prototype.toLowerCase\<close> on ASCII text: the letters A to Z are folded, every
  other byte is kept. (JavaScript also folds letters outside ASCII; see \<open>ascii_text\<close>.)
\<close>

definition lower_char :: "char \<Rightarrow> char" where
  "lower_char c =
     (if CHR ''A'' \<le> c \<and> c \<le> CHR ''Z'' then char_of (of_char c + (32::nat)) else c)"

definition toLowerCase :: "string \<Rightarrow> string" where
  "toLowerCase s = map lower_char s"

text \<open>Truthiness of a string-valued parameter: \<^verbatim>\<open>undefined\<close>, \<^verbatim>\<open>null\<close> and \<^verbatim>\<open>""\<close> are falsy.\<close>

fun truthy :: "string option \<Rightarrow> bool" where
  "truthy None = False"
| "truthy (Some s) = (s \<noteq> [])"

text \<open>\<^verbatim>\<open>String.prototype.includes\<close>: the argument occurs as a contiguous substring.\<close>

fun starts_with :: "string \<Rightarrow> string \<Rightarrow> bool" where
  "starts_with s [] = True"
| "starts_with [] (p # ps) = False"
| "starts_with (c # cs) (p # ps) = (c = p \<and> starts_with cs ps)"

fun includes_str :: "string \<Rightarrow> string \<Rightarrow> bool" where
  "includes_str [] needle = (needle = [])"
| "includes_str (c # cs) needle = (starts_with (c # cs) needle \<or> includes_str cs needle)"

text \<open>
  Numbers. \<open>Finite n\<close> is the double whose value is the integer \<open>n\<close>.
  \<open>round_to_double\<close> is the rounding of an integer to the nearest double: below
  \<open>2^53\<close> every integer is a double; above, the 53 leading bits are kept and the rest
  is rounded, a tie to the even neighbour; from \<open>2^1024\<close> on the result is infinite.
\<close>

datatype number = NaN | Finite int | PosInfinity | NegInfinity

function bit_length :: "int \<Rightarrow> nat" where
  "bit_length n = (if n \<le> 0 then 0 else Suc (bit_length (n div 2)))"
  by pat_completeness auto
termination
  by (relation "measure nat") auto

declare bit_length.simps [simp del]

definition round_to_double :: "int \<Rightarrow> number" where
  "round_to_double n =
     (let a = \<bar>n\<bar> in
      if a < 2 ^ 53 then Finite n
      else
        let e = bit_length a - 53;
            q = a div 2 ^ e;
            r = a mod 2 ^ e;
            q' = (if 2 ^ e < 2 * r \<or> (2 * r = 2 ^ e \<and> odd q) then q + 1 else q);
            v = q' * 2 ^ e
        in if 2 ^ 1024 \<le> v then (if n < 0 then NegInfinity else PosInfinity)
           else Finite (if n < 0 then - v else v))"

fun negate :: "number \<Rightarrow> number" where
  "negate NaN = NaN"
| "negate (Finite n) = Finite (- n)"
| "negate PosInfinity = NegInfinity"
| "negate NegInfinity = PosInfinity"

text \<open>\<^verbatim>\<open>a + b\<close> and \<^verbatim>\<open>a * b\<close> on numbers.\<close>

fun num_plus :: "number \<Rightarrow> number \<Rightarrow> number" where
  "num_plus (Finite x) (Finite y) = round_to_double (x + y)"
| "num_plus NaN b = NaN"
| "num_plus a NaN = NaN"
| "num_plus PosInfinity NegInfinity = NaN"
| "num_plus NegInfinity PosInfinity = NaN"
| "num_plus PosInfinity b = PosInfinity"
| "num_plus NegInfinity b = NegInfinity"
| "num_plus a PosInfinity = PosInfinity"
| "num_plus a NegInfinity = NegInfinity"

fun infinity_times :: "bool \<Rightarrow> number \<Rightarrow> number" where
  "infinity_times positive NaN = NaN"
| "infinity_times positive (Finite y) =
     (if y = 0 then NaN else if (0 < y) = positive then PosInfinity else NegInfinity)"
| "infinity_times positive PosInfinity = (if positive then PosInfinity else NegInfinity)"
| "infinity_times positive NegInfinity = (if positive then NegInfinity else PosInfinity)"

fun num_times :: "number \<Rightarrow> number \<Rightarrow> number" where
  "num_times (Finite x) (Finite y) = round_to_double (x * y)"
| "num_times NaN b = NaN"
| "num_times a NaN = NaN"
| "num_times PosInfinity b = infinity_times True b"
| "num_times NegInfinity b = infinity_times False b"
| "num_times a PosInfinity = infinity_times True a"
| "num_times a NegInfinity = infinity_times False a"

text \<open>A number in a JSON body: \<^verbatim>\<open>JSON.stringify\<close> writes \<^verbatim>\<open>null\<close> for what is not finite.\<close>

fun to_json :: "number \<Rightarrow> int option" where
  "to_json (Finite n) = Some n"
| "to_json v = None"

text \<open>
  \<^verbatim>\<open>parseInt(string)\<close> with no radix: leading white space is skipped, then an optional
  sign, then an optional \<^verbatim>\<open>0x\<close>/\<^verbatim>\<open>0X\<close> prefix that selects radix 16, then the longest
  run of digits of the radix; whatever follows is ignored. No digit at all gives
  \<^verbatim>\<open>NaN\<close>; otherwise the result is the double nearest to the integer that the digits
  denote. The white space is that of ECMAScript, in UTF-8: the ASCII controls 9 to 13
  and the space, U+00A0, U+1680, U+2000 to U+200A, U+2028, U+2029, U+202F, U+205F,
  U+3000 and U+FEFF.
\<close>

fun white_space_length :: "nat list \<Rightarrow> nat" where
  "white_space_length [] = 0"
| "white_space_length (a # rest) =
     (if a \<in> {9, 10, 11, 12, 13, 32} then 1
      else if a = 194 \<and> take 1 rest = [160] then 2
      else if a = 225 \<and> take 2 rest = [154, 128] then 3
      else if a = 226 \<and> take 1 rest = [128]
              \<and> take 1 (drop 1 rest) \<in> set (map (\<lambda>b. [b]) ([128..<139] @ [168, 169, 175]))
           then 3
      else if a = 226 \<and> take 2 rest = [129, 159] then 3
      else if a = 227 \<and> take 2 rest = [128, 128] then 3
      else if a = 239 \<and> take 2 rest = [187, 191] then 3
      else 0)"

function skip_white_space :: "string \<Rightarrow> string" where
  "skip_white_space s =
     (let k = white_space_length (map of_char s) in
      if k = 0 then s else skip_white_space (drop k s))"
  by pat_completeness auto
termination
proof (relation "measure length")
  show "wf (measure length)" by simp
next
  fix s :: string and k
  assume "k = white_space_length (map of_char s)" "k \<noteq> 0"
  then have "s \<noteq> []" "0 < k" by auto
  then show "(drop k s, s) \<in> measure length" by simp
qed

declare skip_white_space.simps [simp del]

definition digit_value :: "char \<Rightarrow> nat option" where
  "digit_value c =
     (let n = (of_char c :: nat) in
      if 48 \<le> n \<and> n \<le> 57 then Some (n - 48)
      else if 97 \<le> n \<and> n \<le> 122 then Some (n - 87)
      else if 65 \<le> n \<and> n \<le> 90 then Some (n - 55)
      else None)"

definition is_digit :: "nat \<Rightarrow> char \<Rightarrow> bool" where
  "is_digit radix c = (case digit_value c of None \<Rightarrow> False | Some d \<Rightarrow> d < radix)"

definition digits_value :: "nat \<Rightarrow> string \<Rightarrow> int" where
  "digits_value radix ds =
     foldl (\<lambda>acc c. acc * int radix + int (the (digit_value c))) 0 ds"

definition parse_digits :: "nat \<Rightarrow> string \<Rightarrow> number" where
  "parse_digits radix s =
     (let ds = takeWhile (is_digit radix) s in
      if ds = [] then NaN else round_to_double (digits_value radix ds))"

definition parse_unsigned :: "string \<Rightarrow> number" where
  "parse_unsigned s =
     (case s of
        c # x # rest \<Rightarrow>
          if c = CHR ''0'' \<and> (x = CHR ''x'' \<or> x = CHR ''X'') then parse_digits 16 rest
          else parse_digits 10 s
      | _ \<Rightarrow> parse_digits 10 s)"

definition parseInt :: "string \<Rightarrow> number" where
  "parseInt str =
     (case skip_white_space str of
        [] \<Rightarrow> NaN
      | c # cs \<Rightarrow>
          if c = CHR ''-'' then negate (parse_unsigned cs)
          else if c = CHR ''+'' then parse_unsigned cs
          else parse_unsigned (c # cs))"

text \<open>
  \<^verbatim>\<open>Array.prototype.slice(start, end)\<close>: a \<^verbatim>\<open>NaN\<close> index is 0, a negative index counts
  from the end of the array, and both are then cut to the array's bounds.
\<close>

definition relative_index :: "int \<Rightarrow> number \<Rightarrow> int" where
  "relative_index len i =
     (case i of
        NaN \<Rightarrow> 0
      | Finite r \<Rightarrow> if r < 0 then max (len + r) 0 else min r len
      | PosInfinity \<Rightarrow> len
      | NegInfinity \<Rightarrow> 0)"

definition js_slice :: "'a list \<Rightarrow> number \<Rightarrow> number \<Rightarrow> 'a list" where
  "js_slice xs start end_index =
     (let len = int (length xs);
          k = relative_index len start;
          final = relative_index len end_index
      in take (nat (final - k)) (drop (nat k) xs))"

text \<open>
  \<^verbatim>\<open>Array.prototype.sort(comparefn)\<close>, as the insertion sort that V8 runs: the elements
  are taken from left to right, and each one is put into the sorted part in front of
  the first element on which the comparator is negative. The comparators of the
  handlers never return 0, so of two elements with equal keys the later one comes
  first. \<open>insert_by\<close> is the insertion step.
\<close>

fun insert_by :: "('a \<Rightarrow> 'a \<Rightarrow> int) \<Rightarrow> 'a \<Rightarrow> 'a list \<Rightarrow> 'a list" where
  "insert_by cmp x [] = [x]"
| "insert_by cmp x (y # ys) = (if cmp x y < 0 then x # y # ys else y # insert_by cmp x ys)"

definition js_sort :: "('a \<Rightarrow> 'a \<Rightarrow> int) \<Rightarrow> 'a list \<Rightarrow> 'a list" where
  "js_sort cmp xs = foldl (\<lambda>sorted x. insert_by cmp x sorted) [] xs"

text \<open>
  \<^verbatim>\<open>Math.ceil(totalItems / limitNum)\<close> as it reaches the JSON body, for a count of items
  \<open>n \<ge> 0\<close>: \<^verbatim>\<open>NaN\<close> (a \<^verbatim>\<open>NaN\<close> limit, or 0/0) and \<^verbatim>\<open>Infinity\<close> (a positive count over 0)
  are \<^verbatim>\<open>null\<close>; a count over an infinite limit is 0. For a count below \<open>2^32\<close>, the
  bound of an array's length, the rounding of the quotient to a double does not change
  its ceiling.
\<close>

definition ceil_div :: "int \<Rightarrow> number \<Rightarrow> int option" where
  "ceil_div n limitNum =
     (case limitNum of
        NaN \<Rightarrow> None
      | Finite l \<Rightarrow> if l = 0 then None else Some (- ((- n) div l))
      | PosInfinity \<Rightarrow> Some 0
      | NegInfinity \<Rightarrow> Some 0)"

subsection \<open>The in-memory server: \<^verbatim>\<open>GET /books\<close>\<close>

definition validSortFields :: "string list" where
  "validSortFields = [''title'', ''published_year'', ''author'']"

text \<open>Destructuring defaults of \<^verbatim>\<open>req.query\<close>: they apply when the parameter is absent.\<close>

definition sort_by_of :: "query \<Rightarrow> string" where
  "sort_by_of q = (case q_sort_by q of None \<Rightarrow> ''title'' | Some s \<Rightarrow> s)"

definition order_of :: "query \<Rightarrow> string" where
  "order_of q = (case q_order q of None \<Rightarrow> ''asc'' | Some s \<Rightarrow> s)"

definition page_of :: "query \<Rightarrow> string" where
  "page_of q = (case q_page q of None \<Rightarrow> ''1'' | Some s \<Rightarrow> s)"

definition limit_of :: "query \<Rightarrow> string" where
  "limit_of q = (case q_limit q of None \<Rightarrow> ''20'' | Some s \<Rightarrow> s)"

text \<open>
  STEP 4, the filters. Each \<^verbatim>\<open>filter\<close> call runs over the array that the previous one
  left. \<^verbatim>\<open>book.category.toLowerCase()\<close> throws a \<^verbatim>\<open>TypeError\<close> on a book whose
  category is \<^verbatim>\<open>null\<close>.
\<close>

definition filter_category :: "string \<Rightarrow> book list \<Rightarrow> failure + book list" where
  "filter_category c bs =
     (if list_ex (\<lambda>b. category b = None) bs then Inl Thrown
      else Inr (filter (\<lambda>b. toLowerCase (the (category b)) = toLowerCase c) bs))"

definition filter_author :: "string \<Rightarrow> book list \<Rightarrow> book list" where
  "filter_author a bs = filter (\<lambda>b. includes_str (toLowerCase (author b)) (toLowerCase a)) bs"

definition filter_available :: "string \<Rightarrow> book list \<Rightarrow> book list" where
  "filter_available v bs =
     (let isAvailable = (v = ''true'') in
      filter (\<lambda>b. if isAvailable then 0 < copies_available b else copies_available b = 0) bs)"

definition mem_filters :: "query \<Rightarrow> book list \<Rightarrow> failure + book list" where
  "mem_filters q books =
     (case (if truthy (q_category q) then filter_category (the (q_category q)) books
            else Inr books) of
        Inl e \<Rightarrow> Inl e
      | Inr fb1 \<Rightarrow>
          let fb2 = (if truthy (q_author q) then filter_author (the (q_author q)) fb1 else fb1);
              fb3 = (case q_available q of None \<Rightarrow> fb2 | Some v \<Rightarrow> filter_available v fb2)
          in Inr fb3)"

text \<open>
  STEP 5, the comparator. \<^verbatim>\<open>a[sort_by]\<close> is a string for \<^verbatim>\<open>title\<close> and \<^verbatim>\<open>author\<close>, a
  number or \<^verbatim>\<open>null\<close> for \<^verbatim>\<open>published_year\<close>. Strings are lower-cased and compared by
  code unit; in a relational comparison with a number \<^verbatim>\<open>null\<close> is 0.
\<close>

datatype js_value = Str string | Num int | Null

definition field_value :: "string \<Rightarrow> book \<Rightarrow> js_value" where
  "field_value sort_by b =
     (if sort_by = ''title'' then Str (title b)
      else if sort_by = ''author'' then Str (author b)
      else (case published_year b of None \<Rightarrow> Null | Some y \<Rightarrow> Num y))"

fun lower_value :: "js_value \<Rightarrow> js_value" where
  "lower_value (Str s) = Str (toLowerCase s)"
| "lower_value v = v"

fun to_number :: "js_value \<Rightarrow> int" where
  "to_number (Num n) = n"
| "to_number _ = 0"

fun js_greater :: "js_value \<Rightarrow> js_value \<Rightarrow> bool" where
  "js_greater (Str s) (Str t) = (t < s)"
| "js_greater (Str s) v = False"
| "js_greater v (Str t) = False"
| "js_greater v w = (to_number w < to_number v)"

definition comparator :: "string \<Rightarrow> string \<Rightarrow> book \<Rightarrow> book \<Rightarrow> int" where
  "comparator sort_by order a b =
     (let aVal = lower_value (field_value sort_by a);
          bVal = lower_value (field_value sort_by b)
      in if order = ''asc'' then (if js_greater aVal bVal then 1 else -1)
         else (if js_greater bVal aVal then 1 else -1))"

text \<open>STEP 2 to STEP 8 of the handler.\<close>

definition mem_get_books :: "book list \<Rightarrow> query \<Rightarrow> failure + page_response" where
  "mem_get_books books q =
     (let sort_by = sort_by_of q; order = order_of q in
      if sort_by \<notin> set validSortFields then Inl (Rejected 400 (INVALID_PARAMETER ''sort_by''))
      else if order \<notin> set [''asc'', ''desc''] then Inl (Rejected 400 (INVALID_PARAMETER ''order''))
      else
        (case mem_filters q books of
           Inl e \<Rightarrow> Inl e
         | Inr filteredBooks \<Rightarrow>
             let sorted = js_sort (comparator sort_by order) filteredBooks;
                 pageNum = parseInt (page_of q);
                 limitNum = parseInt (limit_of q);
                 startIndex = num_times (num_plus pageNum (Finite (- 1))) limitNum;
                 endIndex = num_plus startIndex limitNum;
                 paginatedBooks = js_slice sorted startIndex endIndex;
                 totalItems = int (length sorted);
                 totalPages = ceil_div totalItems limitNum
             in Inr \<lparr>data = paginatedBooks, current_page = to_json pageNum,
                     total_pages = totalPages, total_items = totalItems,
                     items_per_page = to_json limitNum\<rparr>))"

subsection \<open>The in-memory server: the store and the single-record handlers\<close>

text \<open>The array \<^verbatim>\<open>books\<close> as the module initialises it.\<close>

definition seed_books :: "book list" where
  "seed_books =
     [\<lparr>book_id = 1, title = ''The Hobbit'', author = ''J.R.R. Tolkien'',
       isbn = ''978-0547928227'', published_year = Some 1937, category = Some ''fiction'',
       copies_available = 3, copies_total = 5,
       created_at = ''2025-01-01T00:00:00Z'', updated_at = ''2025-01-05T10:30:00Z''\<rparr>,
      \<lparr>book_id = 2, title = ''Clean Code'', author = ''Robert C. Martin'',
       isbn = ''978-0132350884'', published_year = Some 2008, category = Some ''technology'',
       copies_available = 2, copies_total = 2,
       created_at = ''2025-01-02T00:00:00Z'', updated_at = ''2025-01-02T00:00:00Z''\<rparr>,
      \<lparr>book_id = 3, title = ''1984'', author = ''George Orwell'',
       isbn = ''978-0451524935'', published_year = Some 1949, category = Some ''fiction'',
       copies_available = 0, copies_total = 4,
       created_at = ''2025-01-03T00:00:00Z'', updated_at = ''2025-01-10T14:20:00Z''\<rparr>,
      \<lparr>book_id = 4, title = ''Introduction to Algorithms'', author = ''Thomas H. Cormen'',
       isbn = ''978-0262033848'', published_year = Some 2009, category = Some ''technology'',
       copies_available = 1, copies_total = 3,
       created_at = ''2025-01-04T00:00:00Z'', updated_at = ''2025-01-04T00:00:00Z''\<rparr>,
      \<lparr>book_id = 5, title = ''The Lord of the Rings'', author = ''J.R.R. Tolkien'',
       isbn = ''978-0544003415'', published_year = Some 1954, category = Some ''fiction'',
       copies_available = 2, copies_total = 6,
       created_at = ''2025-01-05T00:00:00Z'', updated_at = ''2025-01-12T09:15:00Z''\<rparr>]"

text \<open>
  STEP 1 of \<^verbatim>\<open>POST /books\<close> and of \<^verbatim>\<open>PUT /books/:id\<close>: the required fields, with the
  \<^verbatim>\<open>details\<close> entries of those that are missing.
\<close>

definition missing_fields :: "draft \<Rightarrow> string list" where
  "missing_fields d =
     (if truthy (d_title d) then [] else [''title'']) @
     (if truthy (d_author d) then [] else [''author'']) @
     (if truthy (d_isbn d) then [] else [''isbn''])"

text \<open>
  \<^verbatim>\<open>published_year || null\<close> and \<^verbatim>\<open>category || null\<close>: a falsy value (0, the empty
  string) is stored as \<^verbatim>\<open>null\<close>.
\<close>

definition year_or_null :: "int option \<Rightarrow> int option" where
  "year_or_null y = (if y = Some 0 then None else y)"

definition string_or_null :: "string option \<Rightarrow> string option" where
  "string_or_null s = (if truthy s then s else None)"

text \<open>
  \<^verbatim>\<open>POST /books\<close>. \<open>now\<close> is \<^verbatim>\<open>new Date().toISOString()\<close>. The result is the response
  and the array \<^verbatim>\<open>books\<close> after the handler.
\<close>

definition mem_post_books :: "book list \<Rightarrow> draft \<Rightarrow> string \<Rightarrow> (failure + book) \<times> book list" where
  "mem_post_books books d now =
     (let copies_total = (case d_copies_total d of None \<Rightarrow> 1 | Some n \<Rightarrow> n) in
      if \<not> truthy (d_title d) \<or> \<not> truthy (d_author d) \<or> \<not> truthy (d_isbn d)
      then (Inl (Rejected 400 (VALIDATION_ERROR (missing_fields d))), books)
      else
        (case find (\<lambda>book. isbn book = the (d_isbn d)) books of
           Some existingBook \<Rightarrow> (Inl (Rejected 409 (DUPLICATE_ISBN (book_id existingBook))), books)
         | None \<Rightarrow>
             let newBook = \<lparr>book_id = int (length books) + 1,
                            title = the (d_title d), author = the (d_author d),
                            isbn = the (d_isbn d),
                            published_year = year_or_null (d_published_year d),
                            category = string_or_null (d_category d),
                            copies_available = copies_total, copies_total = copies_total,
                            created_at = now, updated_at = now\<rparr>
             in (Inr newBook, books @ [newBook])))"

text \<open>
  \<^verbatim>\<open>GET /books/:id\<close>. \<^verbatim>\<open>b.id === bookId\<close> is false for every book when \<^verbatim>\<open>bookId\<close> is
  \<^verbatim>\<open>NaN\<close> or infinite.
\<close>

definition mem_get_book :: "book list \<Rightarrow> string \<Rightarrow> failure + book" where
  "mem_get_book books id_param =
     (let bookId = parseInt id_param in
      case find (\<lambda>b. Finite (book_id b) = bookId) books of
        None \<Rightarrow> Inl (Rejected 404 RESOURCE_NOT_FOUND)
      | Some book \<Rightarrow> Inr book)"

text \<open>\<^verbatim>\<open>Array.prototype.findIndex\<close>: the first index where the predicate holds, or -1.\<close>

fun findIndex :: "('a \<Rightarrow> bool) \<Rightarrow> 'a list \<Rightarrow> int" where
  "findIndex P [] = - 1"
| "findIndex P (x # xs) =
     (if P x then 0 else (let i = findIndex P xs in if i = - 1 then - 1 else i + 1))"

text \<open>\<^verbatim>\<open>books.splice(bookIndex, 1)\<close> at an index inside the array.\<close>

definition splice1 :: "nat \<Rightarrow> 'a list \<Rightarrow> 'a list" where
  "splice1 i xs = take i xs @ drop (Suc i) xs"

text \<open>\<^verbatim>\<open>DELETE /books/:id\<close>; the success response is 204 with no body.\<close>

definition mem_delete_book :: "book list \<Rightarrow> string \<Rightarrow> (failure + unit) \<times> book list" where
  "mem_delete_book books id_param =
     (let bookId = parseInt id_param;
          bookIndex = findIndex (\<lambda>b. Finite (book_id b) = bookId) books
      in if bookIndex = - 1 then (Inl (Rejected 404 RESOURCE_NOT_FOUND), books)
         else (Inr (), splice1 (nat bookIndex) books))"

text \<open>The routes each server registers (\<^verbatim>\<open>app.get\<close>, \<^verbatim>\<open>app.post\<close>, \<^verbatim>\<open>app.put\<close>, \<^verbatim>\<open>app.delete\<close>).\<close>

datatype http_method = GET | POST | PUT | DELETE

definition mem_routes :: "(http_method \<times> string) list" where
  "mem_routes =
     [(GET, ''/books''), (POST, ''/books''), (GET, ''/books/:id''), (DELETE, ''/books/:id'')]"

definition sql_routes :: "(http_method \<times> string) list" where
  "sql_routes =
     [(GET, ''/books''), (POST, ''/books''), (GET, ''/books/:id''), (PUT, ''/books/:id''),
      (DELETE, ''/books/:id'')]"

subsection \<open>The in-memory \<^verbatim>\<open>GET /books\<close> on the JavaScript heap\<close>

text \<open>
  The handler works on arrays by reference: \<^verbatim>\<open>[...books]\<close>, \<^verbatim>\<open>filter\<close> and \<^verbatim>\<open>slice\<close>
  allocate a new array each, and \<^verbatim>\<open>sort\<close> rewrites in place the array that
  \<^verbatim>\<open>filteredBooks\<close> refers to. The heap maps array references to contents; \<open>books\<close> is
  the reference held by the module-level variable.
\<close>

record js_heap =
  arrays :: "nat \<Rightarrow> book list option"
  next_ref :: nat

definition alloc :: "book list \<Rightarrow> js_heap \<Rightarrow> nat \<times> js_heap" where
  "alloc xs h =
     (next_ref h, h\<lparr>arrays := (arrays h)(next_ref h \<mapsto> xs), next_ref := Suc (next_ref h)\<rparr>)"

definition array_at :: "js_heap \<Rightarrow> nat \<Rightarrow> book list" where
  "array_at h r = (case arrays h r of None \<Rightarrow> [] | Some xs \<Rightarrow> xs)"

definition sort_in_place :: "(book \<Rightarrow> book \<Rightarrow> int) \<Rightarrow> nat \<Rightarrow> js_heap \<Rightarrow> js_heap" where
  "sort_in_place cmp r h = h\<lparr>arrays := (arrays h)(r \<mapsto> js_sort cmp (array_at h r))\<rparr>"

text \<open>STEP 3 and STEP 4: the copy of \<^verbatim>\<open>books\<close> and the filters, each into a new array.\<close>

definition heap_filters :: "nat \<Rightarrow> query \<Rightarrow> js_heap \<Rightarrow> (failure + nat) \<times> js_heap" where
  "heap_filters books q h =
     (let (fb0, h0) = alloc (array_at h books) h in
      case (if truthy (q_category q)
            then (case filter_category (the (q_category q)) (array_at h0 fb0) of
                    Inl e \<Rightarrow> (Inl e, h0)
                  | Inr xs \<Rightarrow> (let (r, h') = alloc xs h0 in (Inr r, h')))
            else (Inr fb0, h0)) of
        (Inl e, h1) \<Rightarrow> (Inl e, h1)
      | (Inr fb1, h1) \<Rightarrow>
          let (fb2, h2) = (if truthy (q_author q)
                           then alloc (filter_author (the (q_author q)) (array_at h1 fb1)) h1
                           else (fb1, h1));
              (fb3, h3) = (case q_available q of
                             None \<Rightarrow> (fb2, h2)
                           | Some v \<Rightarrow> alloc (filter_available v (array_at h2 fb2)) h2)
          in (Inr fb3, h3))"

definition heap_get_books ::
  "nat \<Rightarrow> query \<Rightarrow> js_heap \<Rightarrow> (failure + page_response) \<times> js_heap" where
  "heap_get_books books q h =
     (let sort_by = sort_by_of q; order = order_of q in
      if sort_by \<notin> set validSortFields
      then (Inl (Rejected 400 (INVALID_PARAMETER ''sort_by'')), h)
      else if order \<notin> set [''asc'', ''desc'']
      then (Inl (Rejected 400 (INVALID_PARAMETER ''order'')), h)
      else
        (case heap_filters books q h of
           (Inl e, h1) \<Rightarrow> (Inl e, h1)
         | (Inr filteredBooks, h1) \<Rightarrow>
             let h2 = sort_in_place (comparator sort_by order) filteredBooks h1;
                 pageNum = parseInt (page_of q);
                 limitNum = parseInt (limit_of q);
                 startIndex = num_times (num_plus pageNum (Finite (- 1))) limitNum;
                 endIndex = num_plus startIndex limitNum;
                 (paginatedBooks, h3) =
                    alloc (js_slice (array_at h2 filteredBooks) startIndex endIndex) h2;
                 totalItems = int (length (array_at h3 filteredBooks));
                 totalPages = ceil_div totalItems limitNum
             in (Inr \<lparr>data = array_at h3 paginatedBooks, current_page = to_json pageNum,
                      total_pages = totalPages, total_items = totalItems,
                      items_per_page = to_json limitNum\<rparr>, h3)))"

subsection \<open>The SQLite server\<close>

text \<open>
  The table \<^verbatim>\<open>books\<close> is the list of its rows in rowid order, together with the counter
  that \<^verbatim>\<open>AUTOINCREMENT\<close> keeps in \<^verbatim>\<open>sqlite_sequence\<close> (the largest rowid the table ever
  held). The SQL statements of the handlers are functions on it, with SQLite's
  semantics:
  \<^item> \<^verbatim>\<open>=\<close> on \<^verbatim>\<open>TEXT\<close> columns compares byte by byte (no column declares a collation),
    and \<^verbatim>\<open>=\<close> with a \<^verbatim>\<open>NULL\<close> operand selects nothing; a \<^verbatim>\<open>NaN\<close> parameter is bound as
    \<^verbatim>\<open>NULL\<close>, any other number as an integer or a float of the same value, and
    \<^verbatim>\<open>id = ?\<close> compares by value, so an infinite parameter selects nothing;
  \<^item> \<^verbatim>\<open>LIKE\<close> folds the case of ASCII letters only, \<^verbatim>\<open>%\<close> matches any run of characters
    and \<^verbatim>\<open>_\<close> any one character (a first byte with its UTF-8 continuation bytes); the
    handler does not escape the two in the author it is given;
  \<^item> \<^verbatim>\<open>ORDER BY\<close> puts \<^verbatim>\<open>NULL\<close> before numbers and numbers before text, compares text
    byte by byte, and is modelled as an insertion sort of the rows in rowid order;
  \<^item> a negative \<^verbatim>\<open>LIMIT\<close> is no limit and a negative \<^verbatim>\<open>OFFSET\<close> is 0; a \<^verbatim>\<open>LIMIT\<close> or
    \<^verbatim>\<open>OFFSET\<close> that is \<^verbatim>\<open>NULL\<close>, or a number that is not a 64-bit integer, is an error
    (\<^verbatim>\<open>datatype mismatch\<close>);
  \<^item> \<^verbatim>\<open>CURRENT_TIMESTAMP\<close> is the parameter \<open>now\<close>.
\<close>

record db =
  rows :: "book list"
  seq :: int

definition upper_char :: "char \<Rightarrow> char" where
  "upper_char c =
     (if CHR ''a'' \<le> c \<and> c \<le> CHR ''z'' then char_of (of_char c - (32::nat)) else c)"

definition toUpperCase :: "string \<Rightarrow> string" where
  "toUpperCase s = map upper_char s"

definition continuation_byte :: "char \<Rightarrow> bool" where
  "continuation_byte c = (128 \<le> (of_char c :: nat) \<and> (of_char c :: nat) < 192)"

fun like :: "string \<Rightarrow> string \<Rightarrow> bool" where
  "like [] s = (s = [])"
| "like (p # ps) [] = (p = CHR ''%'' \<and> like ps [])"
| "like (p # ps) (c # cs) =
     (if p = CHR ''%'' then like ps (c # cs) \<or> like (p # ps) cs
      else if p = CHR ''_'' then like ps (dropWhile continuation_byte cs)
      else lower_char p = lower_char c \<and> like ps cs)"

text \<open>
  STEP 2 of \<^verbatim>\<open>GET /books\<close>: the \<^verbatim>\<open>WHERE\<close> clause, the conditions joined by \<^verbatim>\<open>AND\<close>.
\<close>

definition sql_where :: "query \<Rightarrow> book \<Rightarrow> bool" where
  "sql_where q r =
     ((if truthy (q_category q) then category r = Some (the (q_category q)) else True) \<and>
      (if truthy (q_author q) then like (''%'' @ the (q_author q) @ ''%'') (author r) else True) \<and>
      (case q_available q of
         None \<Rightarrow> True
       | Some v \<Rightarrow> if v = ''true'' then 0 < copies_available r else copies_available r = 0))"

fun sql_less :: "js_value \<Rightarrow> js_value \<Rightarrow> bool" where
  "sql_less Null Null = False"
| "sql_less Null (Num b) = True"
| "sql_less Null (Str t) = True"
| "sql_less (Num a) Null = False"
| "sql_less (Num a) (Num b) = (a < b)"
| "sql_less (Num a) (Str t) = True"
| "sql_less (Str s) Null = False"
| "sql_less (Str s) (Num b) = False"
| "sql_less (Str s) (Str t) = (s < t)"

definition sql_comparator :: "string \<Rightarrow> string \<Rightarrow> book \<Rightarrow> book \<Rightarrow> int" where
  "sql_comparator col dir a b =
     (if dir = ''DESC'' then (if sql_less (field_value col a) (field_value col b) then 1 else -1)
      else (if sql_less (field_value col b) (field_value col a) then 1 else -1))"

definition sql_order_by :: "string \<Rightarrow> string \<Rightarrow> book list \<Rightarrow> book list" where
  "sql_order_by col dir rs = foldr (insert_by (sql_comparator col dir)) rs []"

text \<open>
  The value of a \<^verbatim>\<open>LIMIT\<close> or \<^verbatim>\<open>OFFSET\<close> parameter: the integer, when the number is one
  that fits in 64 bits.
\<close>

definition sql_integer :: "number \<Rightarrow> int option" where
  "sql_integer v =
     (case v of
        Finite n \<Rightarrow> if - (2 ^ 63) < n \<and> n < 2 ^ 63 then Some n else None
      | _ \<Rightarrow> None)"

definition sql_limit_offset :: "int \<Rightarrow> int \<Rightarrow> 'a list \<Rightarrow> 'a list" where
  "sql_limit_offset l off xs =
     (let ys = drop (nat off) xs in if l < 0 then ys else take (nat l) ys)"

text \<open>\<^verbatim>\<open>GET /books\<close>; every exception inside the handler is answered with 500.\<close>

definition sql_get_books :: "db \<Rightarrow> query \<Rightarrow> failure + page_response" where
  "sql_get_books d q =
     (let sort_by = sort_by_of q; order = order_of q in
      if sort_by \<notin> set validSortFields then Inl (Rejected 400 (INVALID_PARAMETER ''sort_by''))
      else if toLowerCase order \<notin> set [''asc'', ''desc'']
      then Inl (Rejected 400 (INVALID_PARAMETER ''order''))
      else
        let total = int (length (filter (sql_where q) (rows d)));
            pageNum = parseInt (page_of q);
            limitNum = parseInt (limit_of q);
            offset = num_times (num_plus pageNum (Finite (- 1))) limitNum;
            totalPages = ceil_div total limitNum
        in (case (sql_integer limitNum, sql_integer offset) of
              (Some l, Some off) \<Rightarrow>
                Inr \<lparr>data = sql_limit_offset l off
                             (sql_order_by sort_by (toUpperCase order) (filter (sql_where q) (rows d))),
                     current_page = to_json pageNum, total_pages = totalPages,
                     total_items = total, items_per_page = to_json limitNum\<rparr>
            | _ \<Rightarrow> Inl (Rejected 500 DATABASE_ERROR)))"

text \<open>
  \<^verbatim>\<open>INSERT INTO books (title, ..., copies_total)\<close>: \<^verbatim>\<open>AUTOINCREMENT\<close> gives the row an id
  one above the largest id the table ever held (the model has no end of the ids, which
  SQLite has at \<open>2^63 - 1\<close>), and both timestamps default to the current time. The result
  is \<^verbatim>\<open>lastID\<close> and the new table.
\<close>

definition next_rowid :: "db \<Rightarrow> int" where
  "next_rowid d = foldr max (map book_id (rows d)) (seq d) + 1"

definition sql_insert ::
  "db \<Rightarrow> string \<Rightarrow> string \<Rightarrow> string \<Rightarrow> int option \<Rightarrow> string option \<Rightarrow> int \<Rightarrow> int \<Rightarrow> string
     \<Rightarrow> int \<times> db" where
  "sql_insert d t a i y c avail n_total now =
     (let lastID = next_rowid d;
          r = \<lparr>book_id = lastID, title = t, author = a, isbn = i, published_year = y,
               category = c, copies_available = avail, copies_total = n_total,
               created_at = now, updated_at = now\<rparr>
      in (lastID, \<lparr>rows = rows d @ [r], seq = lastID\<rparr>))"

text \<open>\<^verbatim>\<open>SELECT * FROM books WHERE id = ?\<close> through \<^verbatim>\<open>db.get\<close>: the row, or \<^verbatim>\<open>undefined\<close>.\<close>

definition sql_select_by_id :: "db \<Rightarrow> number \<Rightarrow> book option" where
  "sql_select_by_id d bookId = find (\<lambda>r. Finite (book_id r) = bookId) (rows d)"

text \<open>
  \<^verbatim>\<open>initializeDatabase\<close>: an empty table is seeded with the five sample books (the same
  titles, authors, isbns, years, categories and copies as the in-memory array).
\<close>

definition empty_db :: db where
  "empty_db = \<lparr>rows = [], seq = 0\<rparr>"

definition initializeDatabase :: "db \<Rightarrow> string \<Rightarrow> db" where
  "initializeDatabase d now =
     (if length (rows d) = 0
      then foldl (\<lambda>acc book. snd (sql_insert acc (title book) (author book) (isbn book)
                                    (published_year book) (category book)
                                    (copies_available book) (copies_total book) now))
                 d seed_books
      else d)"

text \<open>\<^verbatim>\<open>POST /books\<close>.\<close>

definition sql_post_books :: "db \<Rightarrow> draft \<Rightarrow> string \<Rightarrow> (failure + book) \<times> db" where
  "sql_post_books d body now =
     (let copies_total = (case d_copies_total body of None \<Rightarrow> 1 | Some n \<Rightarrow> n) in
      if \<not> truthy (d_title body) \<or> \<not> truthy (d_author body) \<or> \<not> truthy (d_isbn body)
      then (Inl (Rejected 400 (VALIDATION_ERROR (missing_fields body))), d)
      else
        (case find (\<lambda>r. isbn r = the (d_isbn body)) (rows d) of
           Some existingBook \<Rightarrow> (Inl (Rejected 409 (DUPLICATE_ISBN (book_id existingBook))), d)
         | None \<Rightarrow>
             let (lastID, d') = sql_insert d (the (d_title body)) (the (d_author body))
                                  (the (d_isbn body)) (d_published_year body) (d_category body)
                                  copies_total copies_total now
             in (case sql_select_by_id d' (Finite lastID) of
                   None \<Rightarrow> (Inl (Rejected 500 DATABASE_ERROR), d')
                 | Some newBook \<Rightarrow> (Inr newBook, d'))))"

text \<open>\<^verbatim>\<open>GET /books/:id\<close>.\<close>

definition sql_get_book :: "db \<Rightarrow> string \<Rightarrow> failure + book" where
  "sql_get_book d id_param =
     (let bookId = parseInt id_param in
      case sql_select_by_id d bookId of
        None \<Rightarrow> Inl (Rejected 404 RESOURCE_NOT_FOUND)
      | Some book \<Rightarrow> Inr book)"

text \<open>
  \<^verbatim>\<open>PUT /books/:id\<close>. \<^verbatim>\<open>copies_total || existingBook.copies_total\<close> keeps the stored
  total when the body has none or 0; \<^verbatim>\<open>copies_available\<close> is written back unchanged.
  The query for a second row with the new isbn (\<^verbatim>\<open>isbn = ? AND id != ?\<close>) and the
  \<^verbatim>\<open>UPDATE\<close> run only after the row was found, so the id they are given is a number,
  the id of that row.
\<close>

definition sql_update ::
  "db \<Rightarrow> int \<Rightarrow> string \<Rightarrow> string \<Rightarrow> string \<Rightarrow> int option \<Rightarrow> string option \<Rightarrow> int \<Rightarrow> int
     \<Rightarrow> string \<Rightarrow> db" where
  "sql_update d bookId t a i y c n_total avail now =
     d\<lparr>rows := map (\<lambda>r. if book_id r = bookId
                         then r\<lparr>title := t, author := a, isbn := i, published_year := y,
                                category := c, copies_total := n_total,
                                copies_available := avail, updated_at := now\<rparr>
                         else r) (rows d)\<rparr>"

definition sql_put_book :: "db \<Rightarrow> string \<Rightarrow> draft \<Rightarrow> string \<Rightarrow> (failure + book) \<times> db" where
  "sql_put_book d id_param body now =
     (let bookId = parseInt id_param in
      if \<not> truthy (d_title body) \<or> \<not> truthy (d_author body) \<or> \<not> truthy (d_isbn body)
      then (Inl (Rejected 400 (VALIDATION_ERROR (missing_fields body))), d)
      else
        (case sql_select_by_id d bookId of
           None \<Rightarrow> (Inl (Rejected 404 RESOURCE_NOT_FOUND), d)
         | Some existingBook \<Rightarrow>
             (case (if the (d_isbn body) \<noteq> isbn existingBook
                    then find (\<lambda>r. isbn r = the (d_isbn body) \<and> Finite (book_id r) \<noteq> bookId)
                           (rows d)
                    else None) of
                Some duplicateISBN \<Rightarrow>
                  (Inl (Rejected 409 (DUPLICATE_ISBN (book_id duplicateISBN))), d)
              | None \<Rightarrow>
                  let availableDifference = copies_available existingBook;
                      newCopiesTotal =
                        (case d_copies_total body of
                           None \<Rightarrow> copies_total existingBook
                         | Some n \<Rightarrow> if n = 0 then copies_total existingBook else n);
                      d' = sql_update d (book_id existingBook) (the (d_title body))
                             (the (d_author body)) (the (d_isbn body)) (d_published_year body)
                             (d_category body) newCopiesTotal availableDifference now
                  in (case sql_select_by_id d' bookId of
                        None \<Rightarrow> (Inl (Rejected 500 DATABASE_ERROR), d')
                      | Some updatedBook \<Rightarrow> (Inr updatedBook, d')))))"

text \<open>\<^verbatim>\<open>DELETE /books/:id\<close>.\<close>

definition sql_delete_book :: "db \<Rightarrow> string \<Rightarrow> (failure + unit) \<times> db" where
  "sql_delete_book d id_param =
     (let bookId = parseInt id_param in
      case sql_select_by_id d bookId of
        None \<Rightarrow> (Inl (Rejected 404 RESOURCE_NOT_FOUND), d)
      | Some book \<Rightarrow> (Inr (), d\<lparr>rows := filter (\<lambda>r. Finite (book_id r) \<noteq> bookId) (rows d)\<rparr>))"

subsection \<open>Notions of the specification\<close>


text \<open>
  The page as the specification words it: the positions from \<open>start\<close> up to but
  excluding \<open>end\<close>, both cut to the bounds of the list.
\<close>

definition clamped_slice :: "'a list \<Rightarrow> int \<Rightarrow> int \<Rightarrow> 'a list" where
  "clamped_slice xs start end_index =
     (let len = int (length xs);
          lo = max 0 (min start len);
          hi = max 0 (min end_index len)
      in take (nat (hi - lo)) (drop (nat lo) xs))"

text \<open>
  ASCII text: every byte is below 128. On ASCII text \<open>toLowerCase\<close> and the order
  \<open><\<close> of strings are those of JavaScript. A store or a query is ASCII when its
  strings are.
\<close>

definition ascii_text :: "string \<Rightarrow> bool" where
  "ascii_text s = list_all (\<lambda>c. of_char c < (128::nat)) s"

definition ascii_option :: "string option \<Rightarrow> bool" where
  "ascii_option s = (case s of None \<Rightarrow> True | Some t \<Rightarrow> ascii_text t)"

definition ascii_book :: "book \<Rightarrow> bool" where
  "ascii_book b = (ascii_text (title b) \<and> ascii_text (author b) \<and> ascii_option (category b))"

definition ascii_query :: "query \<Rightarrow> bool" where
  "ascii_query q = (ascii_option (q_category q) \<and> ascii_option (q_author q))"

text \<open>The \<^verbatim>\<open>data\<close> member of a response; an error envelope has none.\<close>

definition page_data :: "failure + page_response \<Rightarrow> book list" where
  "page_data r = (case r of Inl e \<Rightarrow> [] | Inr p \<Rightarrow> data p)"

text \<open>\<^verbatim>\<open>GET /books\<close> with no query string, and a request body with no field.\<close>

definition no_query :: query where
  "no_query = \<lparr>q_category = None, q_author = None, q_available = None, q_sort_by = None,
               q_order = None, q_page = None, q_limit = None\<rparr>"

definition no_draft :: draft where
  "no_draft = \<lparr>d_title = None, d_author = None, d_isbn = None, d_published_year = None,
               d_category = None, d_copies_total = None\<rparr>"

text \<open>
  A heap extends another one when every array of the first is still there, at the same
  reference and with the same contents.
\<close>

definition heap_extends :: "js_heap \<Rightarrow> js_heap \<Rightarrow> bool" where
  "heap_extends h h' =
     (next_ref h \<le> next_ref h' \<and> (\<forall>r. r < next_ref h \<longrightarrow> arrays h' r = arrays h r))"

text \<open>
  The heap after the module is loaded: \<^verbatim>\<open>let books = [...]\<close> has allocated the array of
  the five sample books, at reference 0.
\<close>

definition initial_heap :: js_heap where
  "initial_heap = \<lparr>arrays = (\<lambda>r. None)(0 \<mapsto> seed_books), next_ref = 1\<rparr>"

text \<open>The SQLite table after \<^verbatim>\<open>initializeDatabase\<close> on a new database file.\<close>

definition seeded_db :: db where
  "seeded_db = initializeDatabase empty_db ''2025-01-01 00:00:00''"

text \<open>The body of a \<^verbatim>\<open>POST /books\<close> for a book that is not in the sample data.\<close>

definition dune_draft :: draft where
  "dune_draft = \<lparr>d_title = Some ''Dune'', d_author = Some ''Frank Herbert'',
                 d_isbn = Some ''978-0441172719'', d_published_year = Some 1965,
                 d_category = Some ''fiction'', d_copies_total = Some 2\<rparr>"

text \<open>
  What an update with the body \<open>body\<close> at the time \<open>now\<close> writes into a row \<open>r\<close>, when
  \<open>old\<close> is the row that the handler read first: the id and \<^verbatim>\<open>created_at\<close> of \<open>r\<close> stay.
\<close>

definition updated_record :: "book \<Rightarrow> draft \<Rightarrow> string \<Rightarrow> book \<Rightarrow> book" where
  "updated_record old body now r =
     r\<lparr>title := the (d_title body), author := the (d_author body), isbn := the (d_isbn body),
       published_year := d_published_year body, category := d_category body,
       copies_total := (case d_copies_total body of
                          None \<Rightarrow> copies_total old
                        | Some n \<Rightarrow> if n = 0 then copies_total old else n),
       copies_available := copies_available old, updated_at := now\<rparr>"

section \<open>Verified properties\<close>

subsection \<open>Sorting\<close>



lemma set_insert_by: "set (insert_by c x ys) = insert x (set ys)"
  by (induction ys) auto

lemma set_foldr_insert_by: "set (foldr (insert_by c) xs []) = set xs"
  by (induction xs) (simp_all add: set_insert_by)

lemma length_insert_by: "length (insert_by c x ys) = Suc (length ys)"
  by (induction ys) auto

lemma length_foldr_insert_by: "length (foldr (insert_by c) xs []) = length xs"
  by (induction xs) (simp_all add: length_insert_by)







text \<open>\<^verbatim>\<open>sort\<close> takes the elements from left to right.\<close>

lemma js_sort_foldr: "js_sort c xs = foldr (insert_by c) (rev xs) []"
  by (simp add: js_sort_def foldl_conv_foldr)

lemma length_js_sort: "length (js_sort c xs) = length xs"
  by (simp add: js_sort_foldr length_foldr_insert_by)

lemma set_js_sort: "set (js_sort c xs) = set xs"
  by (simp add: js_sort_foldr set_foldr_insert_by)










subsection \<open>Single-record lookups\<close>

lemma find_no_match: "(\<And>x. x \<in> set xs \<Longrightarrow> \<not> P x) \<Longrightarrow> find P xs = None"
  by (simp add: find_None_iff)

lemma findIndex_no_match: "(\<And>x. x \<in> set xs \<Longrightarrow> \<not> P x) \<Longrightarrow> findIndex P xs = - 1"
  by (induction xs) simp_all

text \<open>
  Claim C9. When the \<^verbatim>\<open>:id\<close> path segment does not parse as an integer (\<^verbatim>\<open>parseInt\<close>
  gives \<^verbatim>\<open>NaN\<close>), \<^verbatim>\<open>GET /books/:id\<close> and \<^verbatim>\<open>DELETE /books/:id\<close> match no record and answer
  404 \<^verbatim>\<open>RESOURCE_NOT_FOUND\<close>, in both servers; the store is left as it was, nothing is
  thrown, and the answer is the one given for a numeric id that no record has.
\<close>

theorem unparsable_id_is_not_found:
  assumes "parseInt seg = NaN"
  shows "mem_get_book books seg = Inl (Rejected 404 RESOURCE_NOT_FOUND)
       \<and> mem_delete_book books seg = (Inl (Rejected 404 RESOURCE_NOT_FOUND), books)
       \<and> sql_get_book d seg = Inl (Rejected 404 RESOURCE_NOT_FOUND)
       \<and> sql_delete_book d seg = (Inl (Rejected 404 RESOURCE_NOT_FOUND), d)
       \<and> (parseInt seg' = Finite n \<and> n \<notin> book_id ` set books \<longrightarrow>
            mem_get_book books seg' = mem_get_book books seg
          \<and> mem_delete_book books seg' = mem_delete_book books seg)
       \<and> (parseInt seg' = Finite n \<and> n \<notin> book_id ` set (rows d) \<longrightarrow>
            sql_get_book d seg' = sql_get_book d seg
          \<and> sql_delete_book d seg' = sql_delete_book d seg)"
proof -
  have 1: "mem_get_book books seg = Inl (Rejected 404 RESOURCE_NOT_FOUND)"
    by (simp add: mem_get_book_def assms find_no_match)
  have 2: "mem_delete_book books seg = (Inl (Rejected 404 RESOURCE_NOT_FOUND), books)"
    by (simp add: mem_delete_book_def assms findIndex_no_match)
  have 3: "sql_get_book d seg = Inl (Rejected 404 RESOURCE_NOT_FOUND)"
    by (simp add: sql_get_book_def sql_select_by_id_def assms find_no_match)
  have 4: "sql_delete_book d seg = (Inl (Rejected 404 RESOURCE_NOT_FOUND), d)"
    by (simp add: sql_delete_book_def sql_select_by_id_def assms find_no_match)
  have 5: "mem_get_book books seg' = Inl (Rejected 404 RESOURCE_NOT_FOUND)
         \<and> mem_delete_book books seg' = (Inl (Rejected 404 RESOURCE_NOT_FOUND), books)"
    if "parseInt seg' = Finite n" "n \<notin> book_id ` set books"
  proof -
    have "\<And>b. b \<in> set books \<Longrightarrow> \<not> Finite (book_id b) = Finite n" using that(2) by auto
    then show ?thesis
      by (simp add: mem_get_book_def mem_delete_book_def that(1) find_no_match findIndex_no_match)
  qed
  have 6: "sql_get_book d seg' = Inl (Rejected 404 RESOURCE_NOT_FOUND)
         \<and> sql_delete_book d seg' = (Inl (Rejected 404 RESOURCE_NOT_FOUND), d)"
    if "parseInt seg' = Finite n" "n \<notin> book_id ` set (rows d)"
  proof -
    have "\<And>b. b \<in> set (rows d) \<Longrightarrow> \<not> Finite (book_id b) = Finite n" using that(2) by auto
    then show ?thesis
      by (simp add: sql_get_book_def sql_delete_book_def sql_select_by_id_def that(1) find_no_match)
  qed
  from 1 2 3 4 5 6 show ?thesis by simp
qed

theorem unparsable_id_is_not_found_witness:
  "parseInt ''abc'' = NaN
   \<and> parseInt ''99'' = Finite 99 \<and> 99 \<notin> book_id ` set seed_books
   \<and> 99 \<notin> book_id ` set (rows (initializeDatabase empty_db ''2025-01-01 00:00:00''))
   \<and> mem_get_book seed_books ''abc'' = Inl (Rejected 404 RESOURCE_NOT_FOUND)
   \<and> mem_delete_book seed_books ''abc'' = (Inl (Rejected 404 RESOURCE_NOT_FOUND), seed_books)
   \<and> sql_get_book (initializeDatabase empty_db ''2025-01-01 00:00:00'') ''abc''
       = Inl (Rejected 404 RESOURCE_NOT_FOUND)
   \<and> mem_get_book seed_books ''99'' = mem_get_book seed_books ''abc''
   \<and> sql_get_book (initializeDatabase empty_db ''2025-01-01 00:00:00'') ''99''
       = sql_get_book (initializeDatabase empty_db ''2025-01-01 00:00:00'') ''abc''"
proof -
  have h: "parseInt ''abc'' = NaN" by code_simp
  have p: "parseInt ''99'' = Finite 99" by code_simp
  have a: "99 \<notin> book_id ` set seed_books" by (simp add: seed_books_def)
  have b: "99 \<notin> book_id ` set (rows (initializeDatabase empty_db ''2025-01-01 00:00:00''))"
    by (simp add: initializeDatabase_def empty_db_def seed_books_def sql_insert_def next_rowid_def)
  from unparsable_id_is_not_found [OF h, of seed_books
      "initializeDatabase empty_db ''2025-01-01 00:00:00''" "''99''" 99] h p a b
  show ?thesis by simp
qed

subsection \<open>The availability filter\<close>







subsection \<open>The list handler on the heap\<close>

lemma heap_extends_refl: "heap_extends h h"
  by (simp add: heap_extends_def)

lemma heap_extends_trans: "heap_extends h h1 \<Longrightarrow> heap_extends h1 h2 \<Longrightarrow> heap_extends h h2"
  by (auto simp: heap_extends_def)

lemma heap_extends_array_at:
  "heap_extends h h' \<Longrightarrow> r < next_ref h \<Longrightarrow> array_at h' r = array_at h r"
  by (simp add: heap_extends_def array_at_def)

lemma alloc_extends: "alloc xs h = (r, h') \<Longrightarrow> heap_extends h h'"
  by (auto simp: alloc_def heap_extends_def)

lemma alloc_ref: "alloc xs h = (r, h') \<Longrightarrow> r = next_ref h \<and> next_ref h' = Suc r"
  by (auto simp: alloc_def)

lemma alloc_array_at: "alloc xs h = (r, h') \<Longrightarrow> array_at h' r = xs"
  by (auto simp: alloc_def array_at_def)

lemma sort_in_place_extends:
  "next_ref h \<le> r \<Longrightarrow> heap_extends h (sort_in_place cmp r h)"
  by (auto simp: sort_in_place_def heap_extends_def)

lemma sort_in_place_next: "next_ref (sort_in_place cmp r h) = next_ref h"
  by (simp add: sort_in_place_def)

lemma sort_in_place_array_at:
  "array_at (sort_in_place cmp r h) r = js_sort cmp (array_at h r)"
  by (simp add: sort_in_place_def array_at_def)

text \<open>The filters on the heap compute what the filters on the contents compute.\<close>

lemma heap_filters_Inl:
  assumes "heap_filters books q h = (Inl e, h1)"
  shows "heap_extends h h1 \<and> mem_filters q (array_at h books) = Inl e"
  using assms
  by (auto simp: heap_filters_def mem_filters_def alloc_def array_at_def heap_extends_def Let_def
        split: sum.splits option.splits prod.splits if_splits)

lemma heap_filters_Inr:
  assumes "heap_filters books q h = (Inr fb, h1)"
  shows "heap_extends h h1 \<and> next_ref h \<le> fb \<and> fb < next_ref h1
         \<and> mem_filters q (array_at h books) = Inr (array_at h1 fb)"
  using assms
  by (auto simp: heap_filters_def mem_filters_def alloc_def array_at_def heap_extends_def Let_def
        split: sum.splits option.splits prod.splits if_splits)

lemma heap_get_books_refines:
  assumes "heap_get_books books q h = (res, h')"
  shows "res = mem_get_books (array_at h books) q \<and> heap_extends h h'"
proof (cases "sort_by_of q \<notin> set validSortFields \<or> order_of q \<notin> set [''asc'', ''desc'']")
  case True
  with assms show ?thesis
    by (auto simp: heap_get_books_def mem_get_books_def Let_def heap_extends_refl)
next
  case valid: False
  obtain fr h1 where f: "heap_filters books q h = (fr, h1)"
    by (cases "heap_filters books q h")
  show ?thesis
  proof (cases fr)
    case (Inl e)
    with f heap_filters_Inl have "heap_extends h h1" "mem_filters q (array_at h books) = Inl e"
      by blast+
    with assms valid f Inl show ?thesis
      by (simp add: heap_get_books_def mem_get_books_def Let_def)
  next
    case (Inr fb)
    with f heap_filters_Inr
    have e1: "heap_extends h h1" and lo: "next_ref h \<le> fb" and hi: "fb < next_ref h1"
      and m: "mem_filters q (array_at h books) = Inr (array_at h1 fb)"
      by blast+
    let ?cmp = "comparator (sort_by_of q) (order_of q)"
    let ?h2 = "sort_in_place ?cmp fb h1"
    let ?start = "num_times (num_plus (parseInt (page_of q)) (Finite (- 1))) (parseInt (limit_of q))"
    let ?end = "num_plus ?start (parseInt (limit_of q))"
    obtain pr h3 where a: "alloc (js_slice (array_at ?h2 fb) ?start ?end) ?h2 = (pr, h3)"
      by (cases "alloc (js_slice (array_at ?h2 fb) ?start ?end) ?h2")
    have e2: "heap_extends h ?h2"
      using e1 lo
      by (auto simp: heap_extends_def sort_in_place_def)
    have e3: "heap_extends h h3"
      using e2 alloc_extends [OF a] heap_extends_trans by blast
    have fb3: "array_at h3 fb = js_sort ?cmp (array_at h1 fb)"
      using heap_extends_array_at [OF alloc_extends [OF a], of fb] hi
      by (simp add: sort_in_place_next sort_in_place_array_at)
    have pr3: "array_at h3 pr = js_slice (js_sort ?cmp (array_at h1 fb)) ?start ?end"
      using alloc_array_at [OF a] by (simp add: sort_in_place_array_at)
    from assms valid f Inr a have "h' = h3"
      and "res = Inr \<lparr>data = array_at h3 pr, current_page = to_json (parseInt (page_of q)),
                  total_pages = ceil_div (int (length (array_at h3 fb))) (parseInt (limit_of q)),
                  total_items = int (length (array_at h3 fb)),
                  items_per_page = to_json (parseInt (limit_of q))\<rparr>"
      by (auto simp: heap_get_books_def Let_def)
    then show ?thesis
      using e3 valid m by (simp add: mem_get_books_def Let_def fb3 pr3)
  qed
qed

text \<open>
  Claim C8. \<^verbatim>\<open>GET /books\<close> of the in-memory server does not change the stored
  collection: after the handler the array \<^verbatim>\<open>books\<close> holds the same records in the same
  order (no array that existed before the request is written; the copy, the filtered
  arrays and the page are new ones, and \<^verbatim>\<open>sort\<close> rewrites one of the new ones). Its
  response is a function of the contents of \<^verbatim>\<open>books\<close> and of the query, so the same
  request run again on the heap that the first run left gives the same response.
\<close>

theorem list_reads_only_and_repeats:
  assumes "books < next_ref h"
    and "heap_get_books books q h = (res, h')"
  shows "arrays h' books = arrays h books
       \<and> heap_extends h h'
       \<and> fst (heap_get_books books q h') = res
       \<and> res = mem_get_books (array_at h books) q"
proof -
  from heap_get_books_refines [OF assms(2)]
  have r: "res = mem_get_books (array_at h books) q" and e: "heap_extends h h'"
    by simp_all
  from e assms(1) have same: "arrays h' books = arrays h books"
    by (simp add: heap_extends_def)
  then have "array_at h' books = array_at h books"
    by (simp add: array_at_def)
  moreover have "fst (heap_get_books books q h') = mem_get_books (array_at h' books) q"
    using heap_get_books_refines [of books q h'] by (metis prod.collapse)
  ultimately show ?thesis using r e same by simp
qed

theorem list_reads_only_and_repeats_witness:
  "0 < next_ref initial_heap
   \<and> arrays (snd (heap_get_books 0 (no_query\<lparr>q_order := Some ''desc''\<rparr>) initial_heap)) 0
       = Some seed_books
   \<and> fst (heap_get_books 0 (no_query\<lparr>q_order := Some ''desc''\<rparr>)
            (snd (heap_get_books 0 (no_query\<lparr>q_order := Some ''desc''\<rparr>) initial_heap)))
       = fst (heap_get_books 0 (no_query\<lparr>q_order := Some ''desc''\<rparr>) initial_heap)
   \<and> map book_id (page_data (fst (heap_get_books 0 (no_query\<lparr>q_order := Some ''desc''\<rparr>)
                                    initial_heap))) = [5, 1, 4, 2, 3]"
proof -
  let ?q = "no_query\<lparr>q_order := Some ''desc''\<rparr>"
  have a: "0 < next_ref initial_heap" by (simp add: initial_heap_def)
  have b: "heap_get_books 0 ?q initial_heap
             = (fst (heap_get_books 0 ?q initial_heap), snd (heap_get_books 0 ?q initial_heap))"
    by simp
  have c: "array_at initial_heap 0 = seed_books" "arrays initial_heap 0 = Some seed_books"
    by (simp_all add: initial_heap_def array_at_def)
  have d: "map book_id (page_data (mem_get_books seed_books ?q)) = [5, 1, 4, 2, 3]"
    by code_simp
  from list_reads_only_and_repeats [OF a b] a c d show ?thesis by simp
qed

subsection \<open>Pagination\<close>

lemma js_slice_page:
  assumes "0 \<le> a" "0 \<le> l"
  shows "js_slice xs (Finite a) (Finite (a + l)) = take (nat l) (drop (nat a) xs)"
proof (cases "a < int (length xs)")
  case True
  then have "min (a + l) (int (length xs)) - a = min l (int (length xs) - a)" by linarith
  moreover have "take (nat (min l (int (length xs) - a))) (drop (nat a) xs)
                 = take (nat l) (drop (nat a) xs)"
    using assms True by (simp add: min_def nat_le_iff)
  ultimately show ?thesis
    using assms True by (simp add: js_slice_def relative_index_def Let_def)
next
  case False
  then show ?thesis
    using assms by (simp add: js_slice_def relative_index_def Let_def)
qed

lemma clamped_slice_page:
  assumes "0 \<le> a" "0 \<le> l"
  shows "clamped_slice xs a (a + l) = take (nat l) (drop (nat a) xs)"
proof (cases "a < int (length xs)")
  case True
  have hi: "max 0 (min (a + l) (int (length xs))) = min (a + l) (int (length xs))"
    using assms by linarith
  have lo: "max 0 (min a (int (length xs))) = a" using assms True by linarith
  have d: "min (a + l) (int (length xs)) - a = min l (int (length xs) - a)" by linarith
  have "take (nat (min l (int (length xs) - a))) (drop (nat a) xs)
        = take (nat l) (drop (nat a) xs)"
    using assms True by (simp add: min_def nat_le_iff)
  then show ?thesis
    unfolding clamped_slice_def Let_def hi lo d .
next
  case False
  then have lo: "max 0 (min a (int (length xs))) = int (length xs)" using assms by linarith
  have "drop (nat a) xs = []" using False by simp
  then show ?thesis
    unfolding clamped_slice_def Let_def lo by simp
qed

lemma sql_limit_offset_page:
  assumes "0 \<le> a" "0 \<le> l"
  shows "sql_limit_offset l a xs = take (nat l) (drop (nat a) xs)"
  using assms by (simp add: sql_limit_offset_def)

lemma ceil_div_real:
  "l \<noteq> 0 \<Longrightarrow> ceil_div n (Finite l) = Some \<lceil>real_of_int n / real_of_int l\<rceil>"
  by (simp add: ceil_div_def ceiling_divide_eq_div)

lemma concat_pages_nat:
  "concat (map (\<lambda>i. take L (drop (i * L) xs)) [0..<n]) = take (n * L) xs"
proof (induction n)
  case 0
  show ?case by simp
next
  case (Suc n)
  have "take (n * L + L) xs = take (n * L) xs @ take L (drop (n * L) xs)"
    by (simp add: take_add)
  with Suc show ?case by (simp add: add.commute)
qed

lemma upto_as_upt: "[1..int n] = map (\<lambda>i. int i + 1) [0..<n]"
proof (induction n)
  case 0
  show ?case by simp
next
  case (Suc n)
  have "[1..int (Suc n)] = [1..int n] @ [int n + 1]"
    by (simp add: upto_rec2 add.commute)
  with Suc show ?case by simp
qed

lemma pages_partition:
  assumes "0 < l"
  shows "concat (map (\<lambda>k. take (nat l) (drop (nat ((k - 1) * l)) xs))
                   [1..\<lceil>real (length xs) / real_of_int l\<rceil>]) = xs"
proof -
  define tp where "tp = - ((- int (length xs)) div l)"
  have tp_real: "\<lceil>real (length xs) / real_of_int l\<rceil> = tp"
    using ceiling_divide_eq_div [of "int (length xs)" l] by (simp add: tp_def)
  have cover: "int (length xs) \<le> tp * l"
  proof -
    have "(- int (length xs)) div l * l \<le> - int (length xs)"
      using assms by (metis div_mult_mod_eq le_add_same_cancel1 pos_mod_sign)
    then show ?thesis by (simp add: tp_def)
  qed
  have tp0: "0 \<le> tp"
    using assms div_nonpos_pos_le0 [of "- int (length xs)" l] by (simp add: tp_def)
  define n where "n = nat tp"
  have tpn: "tp = int n" using tp0 by (simp add: n_def)
  have "int (length xs) \<le> int (n * nat l)"
    using cover assms tpn by simp
  then have len: "length xs \<le> n * nat l" by linarith
  have "map (\<lambda>k. take (nat l) (drop (nat ((k - 1) * l)) xs)) [1..int n]
        = map (\<lambda>i. take (nat l) (drop (i * nat l) xs)) [0..<n]"
    using assms by (simp add: upto_as_upt nat_mult_distrib o_def)
  then have "concat (map (\<lambda>k. take (nat l) (drop (nat ((k - 1) * l)) xs)) [1..tp]) = take (n * nat l) xs"
    by (simp add: tpn concat_pages_nat)
  with len show ?thesis by (simp add: tp_real)
qed

lemma last_page_bound:
  assumes "0 < l" "k \<in> set [1..\<lceil>real n / real_of_int l\<rceil>]"
  shows "1 \<le> k \<and> k * l < int n + l"
proof -
  define tp where "tp = - ((- int n) div l)"
  have tp_real: "\<lceil>real n / real_of_int l\<rceil> = tp"
    using ceiling_divide_eq_div [of "int n" l] by (simp add: tp_def)
  have "(- int n) div l * l = - int n - (- int n) mod l"
    by (simp add: minus_mod_eq_div_mult)
  moreover have "(- int n) mod l < l" using assms(1) by simp
  ultimately have "- ((- int n) div l * l) < int n + l" by linarith
  then have "tp * l < int n + l" by (simp add: tp_def)
  moreover have "1 \<le> k" "k \<le> tp" using assms(2) by (simp_all add: tp_real)
  moreover from this assms(1) have "k * l \<le> tp * l" by (simp add: mult_right_mono)
  ultimately show ?thesis by linarith
qed

text \<open>Below \<open>2^53\<close> the arithmetic of the handlers is exact.\<close>

lemma round_to_double_exact: "\<bar>n\<bar> < 2 ^ 53 \<Longrightarrow> round_to_double n = Finite n"
  by (simp add: round_to_double_def)

lemma page_indices_exact:
  assumes "1 \<le> p" "0 < l" "p * l < 2 ^ 53"
  shows "round_to_double (p - 1) = Finite (p - 1)"
    and "round_to_double ((p - 1) * l) = Finite ((p - 1) * l)"
    and "0 \<le> (p - 1) * l" and "(p - 1) * l + l < 2 ^ 53" and "l < 2 ^ 53"
    and "round_to_double ((p - 1) * l + l) = Finite ((p - 1) * l + l)"
proof -
  have pl: "(p - 1) * l + l = p * l" by (simp add: algebra_simps)
  have nonneg: "0 \<le> (p - 1) * l" using assms(1,2) by simp
  have "p * 1 \<le> p * l" using assms(1,2) by (intro mult_left_mono) simp_all
  then have p53: "p < 2 ^ 53" using assms(3) by simp
  have "1 * l \<le> p * l" using assms(1,2) by (intro mult_right_mono) simp_all
  then show l53: "l < 2 ^ 53" using assms(3) by simp
  have "(p - 1) * l \<le> p * l" using assms(2) by (intro mult_right_mono) simp_all
  then have s53: "(p - 1) * l < 2 ^ 53" using assms(3) by simp
  show "round_to_double (p - 1) = Finite (p - 1)"
    using assms(1) p53 by (intro round_to_double_exact) simp
  show "round_to_double ((p - 1) * l) = Finite ((p - 1) * l)"
    using nonneg s53 by (intro round_to_double_exact) simp
  show "round_to_double ((p - 1) * l + l) = Finite ((p - 1) * l + l)"
    using nonneg assms(2,3) pl by (intro round_to_double_exact) simp
  show "0 \<le> (p - 1) * l" by (rule nonneg)
  show "(p - 1) * l + l < 2 ^ 53" using assms(3) pl by simp
qed

lemma mem_filters_page: "mem_filters (q\<lparr>q_page := s\<rparr>) bs = mem_filters q bs"
  by (simp add: mem_filters_def split: sum.splits)

lemma sql_where_page: "sql_where (q\<lparr>q_page := s\<rparr>) = sql_where q"
  by (simp add: sql_where_def fun_eq_iff)

lemma lower_asc_desc: "toLowerCase ''asc'' = ''asc''" "toLowerCase ''desc'' = ''desc''"
  by code_simp+

lemma concat_map_parsed:
  assumes "map g ss = map Finite ks"
    and "\<And>s k. g s = Finite k \<Longrightarrow> k \<in> set ks \<Longrightarrow> f s = h k"
  shows "concat (map f ss) = concat (map h ks)"
  using assms
proof (induction ss arbitrary: ks)
  case Nil
  then show ?case by simp
next
  case (Cons s ss)
  then obtain k ks' where ks: "ks = k # ks'" "g s = Finite k" "map g ss = map Finite ks'"
    by (cases ks) auto
  have "f s = h k" using Cons.prems(2) ks by simp
  moreover have "concat (map f ss) = concat (map h ks')"
    using Cons.IH [OF ks(3)] Cons.prems(2) ks(1) by simp
  ultimately show ?case using ks(1) by simp
qed

lemma mem_get_books_page:
  assumes "sort_by_of q \<in> set validSortFields" "order_of q \<in> set [''asc'', ''desc'']"
    and "parseInt (page_of q) = Finite p" "1 \<le> p"
    and "parseInt (limit_of q) = Finite l" "0 < l"
    and "p * l < 2 ^ 53"
    and "mem_filters q bs = Inr fs"
  shows "mem_get_books bs q =
           Inr \<lparr>data = take (nat l) (drop (nat ((p - 1) * l))
                          (js_sort (comparator (sort_by_of q) (order_of q)) fs)),
                current_page = Some p,
                total_pages = Some \<lceil>real (length fs) / real_of_int l\<rceil>,
                total_items = int (length fs), items_per_page = Some l\<rparr>"
proof -
  note ix = page_indices_exact [OF assms(4,6,7)]
  have s: "js_slice xs (Finite ((p - 1) * l)) (Finite ((p - 1) * l + l))
           = take (nat l) (drop (nat ((p - 1) * l)) xs)" for xs :: "book list"
    using ix(3) assms(6) by (intro js_slice_page) simp_all
  have c: "ceil_div (int (length fs)) (Finite l) = Some \<lceil>real (length fs) / real_of_int l\<rceil>"
    using assms(6) ceil_div_real [of l "int (length fs)"] by simp
  show ?thesis
    using assms(1,2)
    by (simp add: mem_get_books_def Let_def assms(3,5,8) ix(1,2,6) s c length_js_sort)
qed

lemma sql_get_books_page:
  assumes "sort_by_of q \<in> set validSortFields" "order_of q \<in> set [''asc'', ''desc'']"
    and "parseInt (page_of q) = Finite p" "1 \<le> p"
    and "parseInt (limit_of q) = Finite l" "0 < l"
    and "p * l < 2 ^ 53"
  shows "sql_get_books d q =
           Inr \<lparr>data = take (nat l) (drop (nat ((p - 1) * l))
                          (sql_order_by (sort_by_of q) (toUpperCase (order_of q))
                             (filter (sql_where q) (rows d)))),
                current_page = Some p,
                total_pages = Some \<lceil>real (length (filter (sql_where q) (rows d))) / real_of_int l\<rceil>,
                total_items = int (length (filter (sql_where q) (rows d))),
                items_per_page = Some l\<rparr>"
proof -
  note ix = page_indices_exact [OF assms(4,6,7)]
  have s: "sql_limit_offset l ((p - 1) * l) xs = take (nat l) (drop (nat ((p - 1) * l)) xs)"
    for xs :: "book list"
    using ix(3) assms(6) by (intro sql_limit_offset_page) simp_all
  have c: "ceil_div (int n) (Finite l) = Some \<lceil>real n / real_of_int l\<rceil>" for n
    using assms(6) ceil_div_real [of l "int n"] by simp
  have lo: "toLowerCase (order_of q) \<in> set [''asc'', ''desc'']"
    using assms(2) lower_asc_desc by auto
  have "(p - 1) * l < 2 ^ 53" using ix(4) assms(6) by simp
  then have i: "sql_integer (Finite l) = Some l" "sql_integer (Finite ((p - 1) * l)) = Some ((p - 1) * l)"
    using ix(3,5) assms(6) by (simp_all add: sql_integer_def)
  show ?thesis
    using assms(1) lo
    by (simp add: sql_get_books_def Let_def assms(3,5) ix(1,2) i s c)
qed

text \<open>
  Claim C1, for a page number of at least 1 and numbers in the range where the
  arithmetic of the handlers is exact. With a valid sort field and order, a page
  parameter that parses to \<open>p \<ge> 1\<close> and a limit that parses to \<open>l > 0\<close>, with
  \<open>p * l < 2^53\<close>, the list operation of both servers reports \<^verbatim>\<open>total_items\<close> as the size
  of the filtered set, \<^verbatim>\<open>total_pages\<close> as \<open>\<lceil>total_items / l\<rceil>\<close>, and returns the slice of the
  sorted filtered set from position \<open>(p - 1) * l\<close> up to but excluding \<open>(p - 1) * l + l\<close>,
  cut to the bounds of the set: a page that starts at or after the end of the set is
  empty, not an error. When also \<open>total_items + l \<le> 2^53\<close>, the pages for the page
  numbers 1 to \<^verbatim>\<open>total_pages\<close>, one after the other, are the sorted filtered set: no gap
  and no overlap. For the in-memory server the statement is for a store and a query of
  ASCII text.
\<close>

theorem pages_partition_filtered_set:
  assumes "sort_by_of q \<in> set validSortFields" "order_of q \<in> set [''asc'', ''desc'']"
    and "parseInt (page_of q) = Finite p" "1 \<le> p"
    and "parseInt (limit_of q) = Finite l" "0 < l"
    and "p * l < 2 ^ 53"
  shows "(list_all ascii_book bs \<and> ascii_query q \<and> mem_filters q bs = Inr fs \<longrightarrow>
            mem_get_books bs q =
              Inr \<lparr>data = clamped_slice (js_sort (comparator (sort_by_of q) (order_of q)) fs)
                            ((p - 1) * l) ((p - 1) * l + l),
                   current_page = Some p,
                   total_pages = Some \<lceil>real (length fs) / real_of_int l\<rceil>,
                   total_items = int (length fs), items_per_page = Some l\<rparr>
          \<and> (int (length fs) \<le> (p - 1) * l \<longrightarrow> page_data (mem_get_books bs q) = [])
          \<and> (int (length fs) + l \<le> 2 ^ 53
              \<and> map parseInt ss = map Finite [1..\<lceil>real (length fs) / real_of_int l\<rceil>] \<longrightarrow>
               concat (map (\<lambda>s. page_data (mem_get_books bs (q\<lparr>q_page := Some s\<rparr>))) ss)
                 = js_sort (comparator (sort_by_of q) (order_of q)) fs))
       \<and> sql_get_books d q =
              Inr \<lparr>data = clamped_slice (sql_order_by (sort_by_of q) (toUpperCase (order_of q))
                                          (filter (sql_where q) (rows d)))
                            ((p - 1) * l) ((p - 1) * l + l),
                   current_page = Some p,
                   total_pages =
                     Some \<lceil>real (length (filter (sql_where q) (rows d))) / real_of_int l\<rceil>,
                   total_items = int (length (filter (sql_where q) (rows d))),
                   items_per_page = Some l\<rparr>
       \<and> (int (length (filter (sql_where q) (rows d))) \<le> (p - 1) * l \<longrightarrow>
            page_data (sql_get_books d q) = [])
       \<and> (int (length (filter (sql_where q) (rows d))) + l \<le> 2 ^ 53
          \<and> map parseInt ts =
              map Finite [1..\<lceil>real (length (filter (sql_where q) (rows d))) / real_of_int l\<rceil>] \<longrightarrow>
            concat (map (\<lambda>s. page_data (sql_get_books d (q\<lparr>q_page := Some s\<rparr>))) ts)
              = sql_order_by (sort_by_of q) (toUpperCase (order_of q))
                  (filter (sql_where q) (rows d)))"
proof -
  have start: "0 \<le> (p - 1) * l" using assms(4,6) by simp
  have cl: "clamped_slice xs ((p - 1) * l) ((p - 1) * l + l)
            = take (nat l) (drop (nat ((p - 1) * l)) xs)" for xs :: "book list"
    using start assms(6) by (intro clamped_slice_page) simp_all
  have q': "sort_by_of (q\<lparr>q_page := Some s\<rparr>) = sort_by_of q"
    "order_of (q\<lparr>q_page := Some s\<rparr>) = order_of q"
    "limit_of (q\<lparr>q_page := Some s\<rparr>) = limit_of q"
    "page_of (q\<lparr>q_page := Some s\<rparr>) = s" for s
    by (simp_all add: sort_by_of_def order_of_def limit_of_def page_of_def)
  let ?S = "js_sort (comparator (sort_by_of q) (order_of q)) fs"
  have mem: "mem_get_books bs q =
              Inr \<lparr>data = clamped_slice ?S ((p - 1) * l) ((p - 1) * l + l),
                   current_page = Some p,
                   total_pages = Some \<lceil>real (length fs) / real_of_int l\<rceil>,
                   total_items = int (length fs), items_per_page = Some l\<rparr>"
    if "mem_filters q bs = Inr fs"
    using mem_get_books_page [OF assms that] by (simp add: cl)
  have mem_empty: "page_data (mem_get_books bs q) = []"
    if "mem_filters q bs = Inr fs" "int (length fs) \<le> (p - 1) * l"
  proof -
    have "length ?S \<le> nat ((p - 1) * l)" using that(2) by (simp add: length_js_sort)
    then show ?thesis
      using mem_get_books_page [OF assms that(1)] by (simp add: page_data_def)
  qed
  have mem_parts: "concat (map (\<lambda>s. page_data (mem_get_books bs (q\<lparr>q_page := Some s\<rparr>))) ss) = ?S"
    if f: "mem_filters q bs = Inr fs"
      and b: "int (length fs) + l \<le> 2 ^ 53"
      and ss: "map parseInt ss = map Finite [1..\<lceil>real (length fs) / real_of_int l\<rceil>]"
  proof -
    have one: "page_data (mem_get_books bs (q\<lparr>q_page := Some s\<rparr>))
               = take (nat l) (drop (nat ((k - 1) * l)) ?S)"
      if "parseInt s = Finite k" "k \<in> set [1..\<lceil>real (length fs) / real_of_int l\<rceil>]" for s k
    proof -
      from last_page_bound [OF assms(6) that(2)] b
      have "1 \<le> k" "k * l < 2 ^ 53" by simp_all
      then show ?thesis
        using mem_get_books_page [of "q\<lparr>q_page := Some s\<rparr>" k l bs fs] assms(1,2,5,6) that(1) f
        by (simp add: q' mem_filters_page page_data_def)
    qed
    have "concat (map (\<lambda>s. page_data (mem_get_books bs (q\<lparr>q_page := Some s\<rparr>))) ss)
          = concat (map (\<lambda>k. take (nat l) (drop (nat ((k - 1) * l)) ?S))
                      [1..\<lceil>real (length fs) / real_of_int l\<rceil>])"
      by (rule concat_map_parsed [OF ss]) (rule one)
    also have "\<dots> = ?S"
      using pages_partition [OF assms(6), of ?S] by (simp add: length_js_sort)
    finally show ?thesis .
  qed
  let ?F = "filter (sql_where q) (rows d)"
  let ?T = "sql_order_by (sort_by_of q) (toUpperCase (order_of q)) ?F"
  have lenT: "length ?T = length ?F"
    by (simp add: sql_order_by_def length_foldr_insert_by)
  have sql: "sql_get_books d q =
              Inr \<lparr>data = clamped_slice ?T ((p - 1) * l) ((p - 1) * l + l),
                   current_page = Some p,
                   total_pages = Some \<lceil>real (length ?F) / real_of_int l\<rceil>,
                   total_items = int (length ?F), items_per_page = Some l\<rparr>"
    using sql_get_books_page [OF assms] by (simp add: cl)
  have sql_empty: "page_data (sql_get_books d q) = []"
    if "int (length ?F) \<le> (p - 1) * l"
  proof -
    have "length ?T \<le> nat ((p - 1) * l)" using that by (simp add: lenT)
    then show ?thesis
      using sql_get_books_page [OF assms, of d] by (simp add: page_data_def)
  qed
  have sql_parts: "concat (map (\<lambda>s. page_data (sql_get_books d (q\<lparr>q_page := Some s\<rparr>))) ts) = ?T"
    if b: "int (length ?F) + l \<le> 2 ^ 53"
      and ts: "map parseInt ts = map Finite [1..\<lceil>real (length ?F) / real_of_int l\<rceil>]"
  proof -
    have one: "page_data (sql_get_books d (q\<lparr>q_page := Some s\<rparr>))
               = take (nat l) (drop (nat ((k - 1) * l)) ?T)"
      if "parseInt s = Finite k" "k \<in> set [1..\<lceil>real (length ?F) / real_of_int l\<rceil>]" for s k
    proof -
      from last_page_bound [OF assms(6) that(2)] b
      have "1 \<le> k" "k * l < 2 ^ 53" by simp_all
      then show ?thesis
        using sql_get_books_page [of "q\<lparr>q_page := Some s\<rparr>" k l d] assms(1,2,5,6) that(1)
        by (simp add: q' sql_where_page page_data_def)
    qed
    have "concat (map (\<lambda>s. page_data (sql_get_books d (q\<lparr>q_page := Some s\<rparr>))) ts)
          = concat (map (\<lambda>k. take (nat l) (drop (nat ((k - 1) * l)) ?T))
                      [1..\<lceil>real (length ?F) / real_of_int l\<rceil>])"
      by (rule concat_map_parsed [OF ts]) (rule one)
    also have "\<dots> = ?T"
      using pages_partition [OF assms(6), of ?T] by (simp add: lenT)
    finally show ?thesis .
  qed
  from mem mem_empty mem_parts sql sql_empty sql_parts show ?thesis by blast
qed

theorem pages_partition_filtered_set_witness:
  "sort_by_of (no_query\<lparr>q_page := Some ''2'', q_limit := Some ''2''\<rparr>) \<in> set validSortFields
   \<and> order_of (no_query\<lparr>q_page := Some ''2'', q_limit := Some ''2''\<rparr>) \<in> set [''asc'', ''desc'']
   \<and> parseInt (page_of (no_query\<lparr>q_page := Some ''2'', q_limit := Some ''2''\<rparr>)) = Finite 2
   \<and> parseInt (limit_of (no_query\<lparr>q_page := Some ''2'', q_limit := Some ''2''\<rparr>)) = Finite 2
   \<and> (2::int) * 2 < 2 ^ 53
   \<and> list_all ascii_book seed_books
   \<and> ascii_query (no_query\<lparr>q_page := Some ''2'', q_limit := Some ''2''\<rparr>)
   \<and> mem_filters (no_query\<lparr>q_page := Some ''2'', q_limit := Some ''2''\<rparr>) seed_books
       = Inr seed_books
   \<and> int (length seed_books) + 2 \<le> 2 ^ 53
   \<and> map parseInt [''1'', ''2'', ''3'']
       = map Finite [1..\<lceil>real (length seed_books) / real_of_int 2\<rceil>]
   \<and> map book_id (page_data (mem_get_books seed_books
                                (no_query\<lparr>q_page := Some ''2'', q_limit := Some ''2''\<rparr>))) = [4, 1]
   \<and> map_sum id total_pages (mem_get_books seed_books
                                (no_query\<lparr>q_page := Some ''2'', q_limit := Some ''2''\<rparr>))
       = Inr (Some \<lceil>real (length seed_books) / real_of_int 2\<rceil>)
   \<and> concat (map (\<lambda>s. page_data (mem_get_books seed_books
                          (no_query\<lparr>q_page := Some ''2'', q_limit := Some ''2''\<rparr>\<lparr>q_page := Some s\<rparr>)))
               [''1'', ''2'', ''3''])
       = js_sort (comparator (sort_by_of (no_query\<lparr>q_page := Some ''2'', q_limit := Some ''2''\<rparr>))
                             (order_of (no_query\<lparr>q_page := Some ''2'', q_limit := Some ''2''\<rparr>)))
           seed_books
   \<and> map_sum id total_items (sql_get_books seeded_db
                                (no_query\<lparr>q_page := Some ''2'', q_limit := Some ''2''\<rparr>))
       = Inr (int (length (filter (sql_where (no_query\<lparr>q_page := Some ''2'', q_limit := Some ''2''\<rparr>))
                             (rows seeded_db))))"
proof -
  let ?q = "no_query\<lparr>q_page := Some ''2'', q_limit := Some ''2''\<rparr>"
  have h1: "sort_by_of ?q \<in> set validSortFields" by code_simp
  have h2: "order_of ?q \<in> set [''asc'', ''desc'']" by code_simp
  have h3: "parseInt (page_of ?q) = Finite 2" by code_simp
  have h4: "(1::int) \<le> 2" by simp
  have h5: "parseInt (limit_of ?q) = Finite 2" by code_simp
  have h6: "(0::int) < 2" by simp
  have h7: "(2::int) * 2 < 2 ^ 53" by simp
  have f: "mem_filters ?q seed_books = Inr seed_books" by code_simp
  have a: "list_all ascii_book seed_books" "ascii_query ?q" by code_simp+
  have n: "int (length seed_books) + 2 \<le> 2 ^ 53" by (simp add: seed_books_def)
  have tp: "\<lceil>real (length seed_books) / real_of_int 2\<rceil> = 3" by (simp add: seed_books_def)
  have ps: "map parseInt [''1'', ''2'', ''3''] = map Finite [1..3]" by code_simp
  have ids: "map book_id (clamped_slice (js_sort (comparator (sort_by_of ?q) (order_of ?q)) seed_books)
                            ((2 - 1) * 2) ((2 - 1) * 2 + 2)) = [4, 1]"
    by code_simp
  from pages_partition_filtered_set [OF h1 h2 h3 h4 h5 h6 h7, where bs = seed_books
      and fs = seed_books and ss = "[''1'', ''2'', ''3'']" and d = seeded_db and ts = "[]"]
    h1 h2 h3 h5 h7 f a n tp ps ids
  show ?thesis by (simp add: page_data_def)
qed

text \<open>
  Claim C1 as it is stated, with no bound on the page number, fails in both servers.
  In the in-memory server \<^verbatim>\<open>slice\<close> counts a negative index from the end of the array, so
  \<^verbatim>\<open>GET /books?page=-1&limit=2\<close> on the five sample books returns the second and third
  record of the sorted set, where the slice from -4 up to -2 cut to the bounds of the
  set is empty. In the SQLite server an \<^verbatim>\<open>OFFSET\<close> that is not a 64-bit integer is an
  error, so \<^verbatim>\<open>GET /books?page=10000000000000000000&limit=1\<close> is answered with 500
  \<^verbatim>\<open>DATABASE_ERROR\<close>, not with an empty page.
\<close>

theorem negative_page_counterexample:
  "sort_by_of (no_query\<lparr>q_page := Some ''-1'', q_limit := Some ''2''\<rparr>) \<in> set validSortFields
   \<and> order_of (no_query\<lparr>q_page := Some ''-1'', q_limit := Some ''2''\<rparr>) \<in> set [''asc'', ''desc'']
   \<and> parseInt (page_of (no_query\<lparr>q_page := Some ''-1'', q_limit := Some ''2''\<rparr>)) = Finite (- 1)
   \<and> parseInt (limit_of (no_query\<lparr>q_page := Some ''-1'', q_limit := Some ''2''\<rparr>)) = Finite 2
   \<and> mem_filters (no_query\<lparr>q_page := Some ''-1'', q_limit := Some ''2''\<rparr>) seed_books
       = Inr seed_books
   \<and> map book_id (page_data (mem_get_books seed_books
                                (no_query\<lparr>q_page := Some ''-1'', q_limit := Some ''2''\<rparr>))) = [2, 4]
   \<and> clamped_slice (js_sort (comparator ''title'' ''asc'') seed_books)
         ((- 1 - 1) * 2) ((- 1 - 1) * 2 + 2) = []
   \<and> parseInt (page_of (no_query\<lparr>q_page := Some ''10000000000000000000'', q_limit := Some ''1''\<rparr>))
       = Finite 10000000000000000000
   \<and> parseInt (limit_of (no_query\<lparr>q_page := Some ''10000000000000000000'', q_limit := Some ''1''\<rparr>))
       = Finite 1
   \<and> sql_get_books seeded_db
        (no_query\<lparr>q_page := Some ''10000000000000000000'', q_limit := Some ''1''\<rparr>)
       = Inl (Rejected 500 DATABASE_ERROR)"
  by code_simp

subsection \<open>Ascending against descending\<close>









subsection \<open>Validation of the sort parameters\<close>

lemma mem_filters_failure: "mem_filters q bs = Inl e \<Longrightarrow> e = Thrown"
  by (auto simp: mem_filters_def filter_category_def Let_def split: sum.splits if_splits)

lemma mem_get_books_invalid:
  assumes "sort_by_of q \<notin> set validSortFields \<or> order_of q \<notin> set [''asc'', ''desc'']"
  shows "mem_get_books bs q =
           Inl (Rejected 400 (INVALID_PARAMETER
                  (if sort_by_of q \<notin> set validSortFields then ''sort_by'' else ''order'')))"
  using assms by (auto simp: mem_get_books_def Let_def)

lemma mem_get_books_valid:
  assumes "sort_by_of q \<in> set validSortFields" "order_of q \<in> set [''asc'', ''desc'']"
  shows "mem_get_books bs q \<noteq> Inl (Rejected st (INVALID_PARAMETER f))"
proof (cases "mem_filters q bs")
  case (Inl e)
  then have "e = Thrown" by (rule mem_filters_failure)
  with Inl assms show ?thesis by (simp add: mem_get_books_def Let_def)
next
  case (Inr fs)
  with assms show ?thesis by (simp add: mem_get_books_def Let_def)
qed

lemma sql_get_books_invalid:
  assumes "sort_by_of q \<notin> set validSortFields \<or> toLowerCase (order_of q) \<notin> set [''asc'', ''desc'']"
  shows "sql_get_books d q =
           Inl (Rejected 400 (INVALID_PARAMETER
                  (if sort_by_of q \<notin> set validSortFields then ''sort_by'' else ''order'')))"
  using assms by (auto simp: sql_get_books_def Let_def)

lemma sql_get_books_valid:
  assumes "sort_by_of q \<in> set validSortFields" "toLowerCase (order_of q) \<in> set [''asc'', ''desc'']"
  shows "sql_get_books d q \<noteq> Inl (Rejected st (INVALID_PARAMETER f))"
  using assms by (simp add: sql_get_books_def Let_def split: option.splits)

lemma heap_get_books_invalid:
  assumes "sort_by_of q \<notin> set validSortFields \<or> order_of q \<notin> set [''asc'', ''desc'']"
  shows "snd (heap_get_books books q h) = h"
  using assms by (auto simp: heap_get_books_def Let_def)

text \<open>
  Claim C2, with the order compared as each server compares it. \<^verbatim>\<open>GET /books\<close> answers
  \<^verbatim>\<open>INVALID_PARAMETER\<close> exactly when \<^verbatim>\<open>sort_by\<close> is not one of \<^verbatim>\<open>title\<close>,
  \<^verbatim>\<open>published_year\<close>, \<^verbatim>\<open>author\<close>, or \<^verbatim>\<open>order\<close> is not one of \<^verbatim>\<open>asc\<close>, \<^verbatim>\<open>desc\<close>, where the
  in-memory server compares \<^verbatim>\<open>order\<close> as it is and the SQLite server compares it
  lower-cased. The check comes before any other work: on failure the answer is the one
  an empty store would give, the in-memory handler has allocated no array, and no page
  is produced.
\<close>

theorem invalid_parameter_iff:
  "((\<exists>st f. mem_get_books bs q = Inl (Rejected st (INVALID_PARAMETER f)))
      = (sort_by_of q \<notin> set validSortFields \<or> order_of q \<notin> set [''asc'', ''desc'']))
   \<and> ((\<exists>st f. sql_get_books d q = Inl (Rejected st (INVALID_PARAMETER f)))
      = (sort_by_of q \<notin> set validSortFields
         \<or> toLowerCase (order_of q) \<notin> set [''asc'', ''desc'']))
   \<and> (sort_by_of q \<notin> set validSortFields \<or> order_of q \<notin> set [''asc'', ''desc''] \<longrightarrow>
        mem_get_books bs q = mem_get_books [] q \<and> snd (heap_get_books books q h) = h
        \<and> page_data (mem_get_books bs q) = [])
   \<and> (sort_by_of q \<notin> set validSortFields
       \<or> toLowerCase (order_of q) \<notin> set [''asc'', ''desc''] \<longrightarrow>
        sql_get_books d q = sql_get_books empty_db q \<and> page_data (sql_get_books d q) = [])"
proof -
  have 1: "(\<exists>st f. mem_get_books bs q = Inl (Rejected st (INVALID_PARAMETER f)))
      = (sort_by_of q \<notin> set validSortFields \<or> order_of q \<notin> set [''asc'', ''desc''])"
    using mem_get_books_invalid [of q bs] mem_get_books_valid [of q bs] by blast
  have 2: "(\<exists>st f. sql_get_books d q = Inl (Rejected st (INVALID_PARAMETER f)))
      = (sort_by_of q \<notin> set validSortFields
         \<or> toLowerCase (order_of q) \<notin> set [''asc'', ''desc''])"
    using sql_get_books_invalid [of q d] sql_get_books_valid [of q d] by blast
  have 3: "mem_get_books bs q = mem_get_books [] q \<and> snd (heap_get_books books q h) = h
           \<and> page_data (mem_get_books bs q) = []"
    if "sort_by_of q \<notin> set validSortFields \<or> order_of q \<notin> set [''asc'', ''desc'']"
    using mem_get_books_invalid [OF that] heap_get_books_invalid [OF that]
    by (simp add: page_data_def)
  have 4: "sql_get_books d q = sql_get_books empty_db q \<and> page_data (sql_get_books d q) = []"
    if "sort_by_of q \<notin> set validSortFields
        \<or> toLowerCase (order_of q) \<notin> set [''asc'', ''desc'']"
    using sql_get_books_invalid [OF that] by (simp add: page_data_def)
  from 1 2 3 4 show ?thesis by blast
qed

theorem invalid_parameter_iff_witness:
  "sort_by_of (no_query\<lparr>q_sort_by := Some ''isbn'', q_category := Some ''fiction''\<rparr>)
     \<notin> set validSortFields
   \<and> mem_get_books seed_books (no_query\<lparr>q_sort_by := Some ''isbn'', q_category := Some ''fiction''\<rparr>)
     = Inl (Rejected 400 (INVALID_PARAMETER ''sort_by''))
   \<and> snd (heap_get_books 0 (no_query\<lparr>q_sort_by := Some ''isbn'', q_category := Some ''fiction''\<rparr>)
            initial_heap) = initial_heap
   \<and> sql_get_books (initializeDatabase empty_db ''2025-01-01 00:00:00'')
        (no_query\<lparr>q_sort_by := Some ''isbn'', q_category := Some ''fiction''\<rparr>)
     = Inl (Rejected 400 (INVALID_PARAMETER ''sort_by''))"
proof -
  let ?q = "no_query\<lparr>q_sort_by := Some ''isbn'', q_category := Some ''fiction''\<rparr>"
  have h: "sort_by_of ?q \<notin> set validSortFields" by code_simp
  have a: "mem_get_books [] ?q = Inl (Rejected 400 (INVALID_PARAMETER ''sort_by''))" by code_simp
  have b: "sql_get_books empty_db ?q = Inl (Rejected 400 (INVALID_PARAMETER ''sort_by''))"
    by code_simp
  from invalid_parameter_iff [where q = ?q and bs = seed_books and books = 0
      and h = initial_heap and d = "initializeDatabase empty_db ''2025-01-01 00:00:00''"] h a b
  show ?thesis by simp
qed

text \<open>
  Claim C2 as it is stated fails in the SQLite server, which validates
  \<^verbatim>\<open>order.toLowerCase()\<close>: \<^verbatim>\<open>GET /books?order=DESC\<close> has an order that is not one of
  \<^verbatim>\<open>asc\<close>, \<^verbatim>\<open>desc\<close> and is answered with a page (the in-memory server rejects it).
\<close>

theorem upper_case_order_counterexample:
  "order_of (no_query\<lparr>q_order := Some ''DESC''\<rparr>) \<notin> set [''asc'', ''desc'']
   \<and> map_sum id (\<lambda>r. map book_id (data r))
        (sql_get_books (initializeDatabase empty_db ''2025-01-01 00:00:00'')
           (no_query\<lparr>q_order := Some ''DESC''\<rparr>)) = Inr [5, 1, 4, 2, 3]
   \<and> mem_get_books seed_books (no_query\<lparr>q_order := Some ''DESC''\<rparr>)
       = Inl (Rejected 400 (INVALID_PARAMETER ''order''))"
  by code_simp

subsection \<open>The category filter\<close>

text \<open>
  The in-memory category filter compares lower-cased strings, so two filter values that
  differ in case only select the same records.
\<close>

lemma filter_category_case_insensitive:
  "toLowerCase c = toLowerCase c' \<Longrightarrow> filter_category c bs = filter_category c' bs"
  by (simp add: filter_category_def)

text \<open>
  Claim C3 does not hold in the SQLite server, whose condition is \<^verbatim>\<open>category = ?\<close>: on the
  sample data \<^verbatim>\<open>GET /books?category=fiction\<close> returns the three fiction books and
  \<^verbatim>\<open>GET /books?category=Fiction\<close> returns none, where the in-memory server returns the
  three books for both.
\<close>

theorem sql_category_filter_is_case_sensitive:
  "map book_id (page_data (sql_get_books seeded_db (no_query\<lparr>q_category := Some ''fiction''\<rparr>)))
     = [3, 1, 5]
   \<and> map_sum id (\<lambda>r. (map book_id (data r), total_items r))
         (sql_get_books seeded_db (no_query\<lparr>q_category := Some ''Fiction''\<rparr>)) = Inr ([], 0)
   \<and> map book_id (page_data (mem_get_books seed_books (no_query\<lparr>q_category := Some ''fiction''\<rparr>)))
     = [3, 1, 5]
   \<and> map book_id (page_data (mem_get_books seed_books (no_query\<lparr>q_category := Some ''Fiction''\<rparr>)))
     = [3, 1, 5]"
  by code_simp

subsection \<open>Identifiers\<close>

text \<open>
  Claim C4 does not hold in the in-memory server, which assigns \<^verbatim>\<open>books.length + 1\<close>:
  after \<^verbatim>\<open>DELETE /books/5\<close> on the sample data the next created book gets the id 5
  again, and after \<^verbatim>\<open>DELETE /books/1\<close> the next created book gets the id 5 that a stored
  book still has. The SQLite server, with \<^verbatim>\<open>AUTOINCREMENT\<close>, assigns 6.
\<close>

theorem in_memory_id_is_reused:
  "fst (mem_delete_book seed_books ''5'') = Inr ()
   \<and> map book_id (snd (mem_delete_book seed_books ''5'')) = [1, 2, 3, 4]
   \<and> map_sum id book_id
        (fst (mem_post_books (snd (mem_delete_book seed_books ''5'')) dune_draft
                ''2025-02-01T00:00:00.000Z'')) = Inr 5
   \<and> map book_id
        (snd (mem_post_books (snd (mem_delete_book seed_books ''1'')) dune_draft
                ''2025-02-01T00:00:00.000Z'')) = [2, 3, 4, 5, 5]
   \<and> map_sum id book_id
        (fst (sql_post_books (snd (sql_delete_book seeded_db ''5'')) dune_draft
                ''2025-02-01 00:00:00'')) = Inr 6"
  by code_simp

theorem in_memory_id_is_reused_witness:
  "truthy (d_title dune_draft) \<and> truthy (d_author dune_draft) \<and> truthy (d_isbn dune_draft)
   \<and> 5 \<in> book_id ` set seed_books
   \<and> map_sum id book_id
        (fst (mem_post_books (snd (mem_delete_book seed_books ''5'')) dune_draft
                ''2025-02-01T00:00:00.000Z'')) = Inr 5"
proof -
  have t: "truthy (d_title dune_draft)" "truthy (d_author dune_draft)" "truthy (d_isbn dune_draft)"
    by (simp_all add: dune_draft_def)
  have s: "5 \<in> book_id ` set seed_books" by (simp add: seed_books_def)
  from in_memory_id_is_reused t s show ?thesis by blast
qed

subsection \<open>Creating a book\<close>

lemma find_first_match:
  assumes "x \<in> f ` set xs"
  shows "\<exists>b. find (\<lambda>r. f r = x) xs = Some b \<and> b \<in> set xs \<and> f b = x"
  using assms by (induction xs) auto

text \<open>
  Claim C5, for a draft that passes the check of the required fields. When the store
  holds a record with isbn \<open>x\<close>, creating a book from a draft with a non-empty title and
  author and the isbn \<open>x\<close> is answered with 409 \<^verbatim>\<open>DUPLICATE_ISBN\<close> (naming a stored record
  with that isbn), and the store is exactly as it was; in both servers.
\<close>

theorem duplicate_isbn_is_rejected:
  assumes "truthy (d_title body)" "truthy (d_author body)"
    and "d_isbn body = Some x" "x \<noteq> []"
  shows "(x \<in> isbn ` set books \<longrightarrow>
            (\<exists>b. b \<in> set books \<and> isbn b = x
                 \<and> mem_post_books books body now
                     = (Inl (Rejected 409 (DUPLICATE_ISBN (book_id b))), books)))
       \<and> (x \<in> isbn ` set (rows d) \<longrightarrow>
            (\<exists>b. b \<in> set (rows d) \<and> isbn b = x
                 \<and> sql_post_books d body now
                     = (Inl (Rejected 409 (DUPLICATE_ISBN (book_id b))), d)))"
proof -
  have v: "truthy (d_isbn body)" "the (d_isbn body) = x" using assms(3,4) by simp_all
  have m: "\<exists>b. b \<in> set books \<and> isbn b = x
             \<and> mem_post_books books body now
                 = (Inl (Rejected 409 (DUPLICATE_ISBN (book_id b))), books)"
    if "x \<in> isbn ` set books"
  proof -
    from find_first_match [OF that] obtain b
      where b: "find (\<lambda>r. isbn r = x) books = Some b" "b \<in> set books" "isbn b = x"
      by blast
    then show ?thesis
      using assms(1,2) v by (auto simp: mem_post_books_def Let_def)
  qed
  have s: "\<exists>b. b \<in> set (rows d) \<and> isbn b = x
             \<and> sql_post_books d body now
                 = (Inl (Rejected 409 (DUPLICATE_ISBN (book_id b))), d)"
    if "x \<in> isbn ` set (rows d)"
  proof -
    from find_first_match [OF that] obtain b
      where b: "find (\<lambda>r. isbn r = x) (rows d) = Some b" "b \<in> set (rows d)" "isbn b = x"
      by blast
    then show ?thesis
      using assms(1,2) v by (auto simp: sql_post_books_def Let_def)
  qed
  from m s show ?thesis by blast
qed

theorem duplicate_isbn_is_rejected_witness:
  "truthy (d_title (dune_draft\<lparr>d_isbn := Some ''978-0547928227''\<rparr>))
   \<and> truthy (d_author (dune_draft\<lparr>d_isbn := Some ''978-0547928227''\<rparr>))
   \<and> d_isbn (dune_draft\<lparr>d_isbn := Some ''978-0547928227''\<rparr>) = Some ''978-0547928227''
   \<and> ''978-0547928227'' \<in> isbn ` set seed_books
   \<and> ''978-0547928227'' \<in> isbn ` set (rows seeded_db)
   \<and> (\<exists>b. b \<in> set seed_books \<and> isbn b = ''978-0547928227''
          \<and> mem_post_books seed_books (dune_draft\<lparr>d_isbn := Some ''978-0547928227''\<rparr>)
               ''2025-02-01T00:00:00.000Z''
              = (Inl (Rejected 409 (DUPLICATE_ISBN (book_id b))), seed_books))
   \<and> (\<exists>b. b \<in> set (rows seeded_db) \<and> isbn b = ''978-0547928227''
          \<and> sql_post_books seeded_db (dune_draft\<lparr>d_isbn := Some ''978-0547928227''\<rparr>)
               ''2025-02-01T00:00:00.000Z''
              = (Inl (Rejected 409 (DUPLICATE_ISBN (book_id b))), seeded_db))"
proof -
  let ?body = "dune_draft\<lparr>d_isbn := Some ''978-0547928227''\<rparr>"
  have h1: "truthy (d_title ?body)" by (simp add: dune_draft_def)
  have h2: "truthy (d_author ?body)" by (simp add: dune_draft_def)
  have h3: "d_isbn ?body = Some ''978-0547928227''" by simp
  have h4: "''978-0547928227'' \<noteq> []" by simp
  have a: "''978-0547928227'' \<in> isbn ` set seed_books" by (simp add: seed_books_def)
  have b: "''978-0547928227'' \<in> isbn ` set (rows seeded_db)"
    by code_simp
  from duplicate_isbn_is_rejected [OF h1 h2 h3 h4, where books = seed_books and d = seeded_db
      and now = "''2025-02-01T00:00:00.000Z''"] h1 h2 h3 a b
  show ?thesis by blast
qed

text \<open>
  Claim C5 as it is stated, for every draft that carries the isbn, fails: the required
  fields are checked first, so a draft with the isbn of a stored book and no title or
  author is answered with 400 \<^verbatim>\<open>VALIDATION_ERROR\<close>, not with \<^verbatim>\<open>DUPLICATE_ISBN\<close>.
\<close>

theorem duplicate_isbn_without_title_counterexample:
  "d_isbn (no_draft\<lparr>d_isbn := Some ''978-0547928227''\<rparr>) = Some ''978-0547928227''
   \<and> ''978-0547928227'' \<in> isbn ` set seed_books
   \<and> mem_post_books seed_books (no_draft\<lparr>d_isbn := Some ''978-0547928227''\<rparr>)
        ''2025-02-01T00:00:00.000Z''
      = (Inl (Rejected 400 (VALIDATION_ERROR [''title'', ''author''])), seed_books)
   \<and> fst (sql_post_books seeded_db (no_draft\<lparr>d_isbn := Some ''978-0547928227''\<rparr>)
             ''2025-02-01 00:00:00'')
      = Inl (Rejected 400 (VALIDATION_ERROR [''title'', ''author'']))"
  by code_simp

subsection \<open>Updating a book\<close>

lemma find_map_same_test:
  assumes "\<And>r. P (f r) = P r"
  shows "find P (map f xs) = map_option f (find P xs)"
  by (induction xs) (simp_all add: assms)

lemma find_Some_holds: "find P xs = Some x \<Longrightarrow> P x \<and> x \<in> set xs"
  by (induction xs) (auto split: if_splits)

lemma sql_update_rows:
  "sql_update d i t a s y c n av now =
     d\<lparr>rows := map (\<lambda>r. if book_id r = i
                         then r\<lparr>title := t, author := a, isbn := s, published_year := y,
                                category := c, copies_total := n, copies_available := av,
                                updated_at := now\<rparr>
                         else r) (rows d)\<rparr>"
  by (simp add: sql_update_def)

lemma sql_put_book_not_found:
  assumes "truthy (d_title body)" "truthy (d_author body)" "truthy (d_isbn body)"
    and "sql_select_by_id d (parseInt seg) = None"
  shows "sql_put_book d seg body now = (Inl (Rejected 404 RESOURCE_NOT_FOUND), d)"
  using assms by (simp add: sql_put_book_def Let_def)

lemma sql_put_book_duplicate:
  assumes "truthy (d_title body)" "truthy (d_author body)" "truthy (d_isbn body)"
    and old: "sql_select_by_id d (parseInt seg) = Some old"
    and diff: "the (d_isbn body) \<noteq> isbn old"
    and coll: "the (d_isbn body) \<in> isbn ` {r \<in> set (rows d). book_id r \<noteq> book_id old}"
  shows "\<exists>r. r \<in> set (rows d) \<and> isbn r = the (d_isbn body) \<and> book_id r \<noteq> book_id old
             \<and> sql_put_book d seg body now
                 = (Inl (Rejected 409 (DUPLICATE_ISBN (book_id r))), d)"
proof -
  from old have "find (\<lambda>r. Finite (book_id r) = parseInt seg) (rows d) = Some old"
    by (simp add: sql_select_by_id_def)
  from find_Some_holds [OF this] have id: "parseInt seg = Finite (book_id old)"
    by simp
  let ?P = "\<lambda>r. isbn r = the (d_isbn body) \<and> Finite (book_id r) \<noteq> parseInt seg"
  from coll obtain r0 where "r0 \<in> set (rows d)" "?P r0" by (auto simp: id)
  then have "find ?P (rows d) \<noteq> None" by (auto simp: find_None_iff)
  then obtain r where r: "find ?P (rows d) = Some r" by blast
  from find_Some_holds [OF r] have "?P r" "r \<in> set (rows d)" by simp_all
  then show ?thesis
    using assms(1-3) old diff r by (auto simp: sql_put_book_def Let_def id)
qed

lemma sql_put_book_success:
  assumes "truthy (d_title body)" "truthy (d_author body)" "truthy (d_isbn body)"
    and old: "sql_select_by_id d (parseInt seg) = Some old"
    and free: "the (d_isbn body) = isbn old
               \<or> the (d_isbn body) \<notin> isbn ` {r \<in> set (rows d). book_id r \<noteq> book_id old}"
  shows "sql_put_book d seg body now =
           (Inr (updated_record old body now old),
            d\<lparr>rows := map (\<lambda>r. if book_id r = book_id old then updated_record old body now r
                                else r) (rows d)\<rparr>)"
proof -
  from old have "find (\<lambda>r. Finite (book_id r) = parseInt seg) (rows d) = Some old"
    by (simp add: sql_select_by_id_def)
  from find_Some_holds [OF this] have id: "parseInt seg = Finite (book_id old)"
    by simp
  let ?P = "\<lambda>r. isbn r = the (d_isbn body) \<and> Finite (book_id r) \<noteq> parseInt seg"
  let ?f = "\<lambda>r. if book_id r = book_id old then updated_record old body now r else r"
  have nodup: "(if the (d_isbn body) \<noteq> isbn old then find ?P (rows d) else None) = None"
  proof (cases "the (d_isbn body) = isbn old")
    case True
    then show ?thesis by simp
  next
    case False
    with free have "\<And>r. r \<in> set (rows d) \<Longrightarrow> isbn r = the (d_isbn body)
                       \<Longrightarrow> book_id r = book_id old"
      by force
    then show ?thesis by (auto simp: find_None_iff id)
  qed
  let ?n = "case d_copies_total body of None \<Rightarrow> copies_total old
            | Some n \<Rightarrow> if n = 0 then copies_total old else n"
  have upd: "sql_update d (book_id old) (the (d_title body)) (the (d_author body))
               (the (d_isbn body)) (d_published_year body) (d_category body) ?n
               (copies_available old) now = d\<lparr>rows := map ?f (rows d)\<rparr>"
    by (simp add: sql_update_rows updated_record_def)
  have "find (\<lambda>r. Finite (book_id r) = Finite (book_id old)) (map ?f (rows d))
        = map_option ?f (find (\<lambda>r. Finite (book_id r) = Finite (book_id old)) (rows d))"
    by (rule find_map_same_test) (simp add: updated_record_def)
  then have sel: "sql_select_by_id (d\<lparr>rows := map ?f (rows d)\<rparr>) (Finite (book_id old))
                  = Some (updated_record old body now old)"
    using old by (simp add: sql_select_by_id_def id)
  have nodup': "find (\<lambda>r. isbn r = the (d_isbn body) \<and> book_id r \<noteq> book_id old) (rows d) = None"
    if "the (d_isbn body) \<noteq> isbn old"
    using nodup that by (simp add: id)
  show ?thesis
  proof (cases "the (d_isbn body) = isbn old")
    case True
    with assms(1-3) old upd sel show ?thesis
      by (simp add: sql_put_book_def Let_def id)
  next
    case False
    with assms(1-3) old upd sel nodup' [OF False] show ?thesis
      by (simp add: sql_put_book_def Let_def id)
  qed
qed

text \<open>
  Claim C7, for the SQLite server and a draft that passes the check of the required
  fields. \<^verbatim>\<open>PUT /books/:id\<close> is a route of the SQLite server. With a non-empty title,
  author and isbn in the body: when no row has the id the answer is 404
  \<^verbatim>\<open>RESOURCE_NOT_FOUND\<close> and the table is unchanged; when the row exists, the isbn of the
  body differs from the stored one and another row has it, the answer is 409
  \<^verbatim>\<open>DUPLICATE_ISBN\<close> and the table is unchanged; otherwise the answer is the updated row,
  which keeps its id, \<^verbatim>\<open>created_at\<close> and \<^verbatim>\<open>copies_available\<close>, has \<^verbatim>\<open>updated_at\<close> set to the
  current time and the title, author, isbn, year and category of the body, and every
  row with another id is unchanged, at its place in the table.
\<close>

theorem update_in_sqlite_server:
  assumes "truthy (d_title body)" "truthy (d_author body)" "truthy (d_isbn body)"
  shows "(PUT, ''/books/:id'') \<in> set sql_routes
       \<and> (sql_select_by_id d (parseInt seg) = None \<longrightarrow>
            sql_put_book d seg body now = (Inl (Rejected 404 RESOURCE_NOT_FOUND), d))
       \<and> (sql_select_by_id d (parseInt seg) = Some old
          \<and> the (d_isbn body) \<noteq> isbn old
          \<and> the (d_isbn body) \<in> isbn ` {r \<in> set (rows d). book_id r \<noteq> book_id old} \<longrightarrow>
            (\<exists>r. r \<in> set (rows d) \<and> isbn r = the (d_isbn body) \<and> book_id r \<noteq> book_id old
                 \<and> sql_put_book d seg body now
                     = (Inl (Rejected 409 (DUPLICATE_ISBN (book_id r))), d)))
       \<and> (sql_select_by_id d (parseInt seg) = Some old
          \<and> (the (d_isbn body) = isbn old
             \<or> the (d_isbn body) \<notin> isbn ` {r \<in> set (rows d). book_id r \<noteq> book_id old}) \<longrightarrow>
            sql_put_book d seg body now =
              (Inr (updated_record old body now old),
               d\<lparr>rows := map (\<lambda>r. if book_id r = book_id old
                                   then updated_record old body now r else r) (rows d)\<rparr>)
          \<and> book_id (updated_record old body now old) = book_id old
          \<and> created_at (updated_record old body now old) = created_at old
          \<and> copies_available (updated_record old body now old) = copies_available old
          \<and> updated_at (updated_record old body now old) = now
          \<and> title (updated_record old body now old) = the (d_title body)
          \<and> author (updated_record old body now old) = the (d_author body)
          \<and> isbn (updated_record old body now old) = the (d_isbn body)
          \<and> published_year (updated_record old body now old) = d_published_year body
          \<and> category (updated_record old body now old) = d_category body)"
proof -
  have 1: "(PUT, ''/books/:id'') \<in> set sql_routes" by (simp add: sql_routes_def)
  have 2: "book_id (updated_record old body now old) = book_id old
          \<and> created_at (updated_record old body now old) = created_at old
          \<and> copies_available (updated_record old body now old) = copies_available old
          \<and> updated_at (updated_record old body now old) = now
          \<and> title (updated_record old body now old) = the (d_title body)
          \<and> author (updated_record old body now old) = the (d_author body)
          \<and> isbn (updated_record old body now old) = the (d_isbn body)
          \<and> published_year (updated_record old body now old) = d_published_year body
          \<and> category (updated_record old body now old) = d_category body"
    by (simp add: updated_record_def)
  from 1 2 sql_put_book_not_found [OF assms] sql_put_book_duplicate [OF assms]
    sql_put_book_success [OF assms]
  show ?thesis by blast
qed

text \<open>
  Claim C7 as it is stated fails twice: the in-memory server registers no
  \<^verbatim>\<open>PUT /books/:id\<close> route, and the SQLite server checks the required fields before it
  looks the id up, so an update of an id that no row has, with a body that lacks the
  title, is answered with 400 \<^verbatim>\<open>VALIDATION_ERROR\<close>, not with \<^verbatim>\<open>RESOURCE_NOT_FOUND\<close>.
\<close>

theorem update_counterexample:
  "(PUT, ''/books/:id'') \<notin> set mem_routes
   \<and> sql_select_by_id seeded_db (parseInt ''99'') = None
   \<and> sql_put_book seeded_db ''99'' no_draft ''2025-02-01 00:00:00''
       = (Inl (Rejected 400 (VALIDATION_ERROR [''title'', ''author'', ''isbn''])), seeded_db)"
  by code_simp

theorem update_in_sqlite_server_witness:
  "truthy (d_title dune_draft) \<and> truthy (d_author dune_draft) \<and> truthy (d_isbn dune_draft)
   \<and> sql_select_by_id seeded_db (parseInt ''99'') = None
   \<and> sql_put_book seeded_db ''99'' dune_draft ''2025-02-01 00:00:00''
       = (Inl (Rejected 404 RESOURCE_NOT_FOUND), seeded_db)
   \<and> sql_select_by_id seeded_db (parseInt ''1'') = Some (hd (rows seeded_db))
   \<and> the (d_isbn dune_draft)
       \<notin> isbn ` {r \<in> set (rows seeded_db). book_id r \<noteq> book_id (hd (rows seeded_db))}
   \<and> sql_put_book seeded_db ''1'' dune_draft ''2025-02-01 00:00:00''
       = (Inr (updated_record (hd (rows seeded_db)) dune_draft ''2025-02-01 00:00:00''
                 (hd (rows seeded_db))),
          seeded_db\<lparr>rows := map (\<lambda>r. if book_id r = book_id (hd (rows seeded_db))
                                      then updated_record (hd (rows seeded_db)) dune_draft
                                             ''2025-02-01 00:00:00'' r
                                      else r) (rows seeded_db)\<rparr>)
   \<and> the (d_isbn (dune_draft\<lparr>d_isbn := Some ''978-0132350884''\<rparr>)) \<noteq> isbn (hd (rows seeded_db))
   \<and> the (d_isbn (dune_draft\<lparr>d_isbn := Some ''978-0132350884''\<rparr>))
       \<in> isbn ` {r \<in> set (rows seeded_db). book_id r \<noteq> book_id (hd (rows seeded_db))}
   \<and> (\<exists>r. r \<in> set (rows seeded_db) \<and> book_id r \<noteq> book_id (hd (rows seeded_db))
          \<and> sql_put_book seeded_db ''1'' (dune_draft\<lparr>d_isbn := Some ''978-0132350884''\<rparr>)
               ''2025-02-01 00:00:00''
              = (Inl (Rejected 409 (DUPLICATE_ISBN (book_id r))), seeded_db))"
proof -
  let ?old = "hd (rows seeded_db)"
  let ?dup = "dune_draft\<lparr>d_isbn := Some ''978-0132350884''\<rparr>"
  have t: "truthy (d_title dune_draft)" "truthy (d_author dune_draft)" "truthy (d_isbn dune_draft)"
    by (simp_all add: dune_draft_def)
  have t': "truthy (d_title ?dup)" "truthy (d_author ?dup)" "truthy (d_isbn ?dup)"
    by (simp_all add: dune_draft_def)
  have a: "sql_select_by_id seeded_db (parseInt ''99'') = None" by code_simp
  have b: "sql_select_by_id seeded_db (parseInt ''1'') = Some ?old" by code_simp
  have c0: "list_all (\<lambda>r. isbn r \<noteq> the (d_isbn dune_draft)) (rows seeded_db)" by code_simp
  have c: "the (d_isbn dune_draft) \<notin> isbn ` {r \<in> set (rows seeded_db). book_id r \<noteq> book_id ?old}"
    using c0 by (auto simp: list_all_iff)
  have d: "the (d_isbn ?dup) \<noteq> isbn ?old" by code_simp
  have e0: "list_ex (\<lambda>r. isbn r = the (d_isbn ?dup) \<and> book_id r \<noteq> book_id ?old) (rows seeded_db)"
    by code_simp
  have e: "the (d_isbn ?dup) \<in> isbn ` {r \<in> set (rows seeded_db). book_id r \<noteq> book_id ?old}"
    using e0 by (auto simp: list_ex_iff image_iff)
  from update_in_sqlite_server [OF t, where d = seeded_db and seg = "''99''"
      and now = "''2025-02-01 00:00:00''"] a
  have 1: "sql_put_book seeded_db ''99'' dune_draft ''2025-02-01 00:00:00''
           = (Inl (Rejected 404 RESOURCE_NOT_FOUND), seeded_db)"
    by blast
  from update_in_sqlite_server [OF t, where d = seeded_db and seg = "''1''" and old = ?old
      and now = "''2025-02-01 00:00:00''"] b c
  have 2: "sql_put_book seeded_db ''1'' dune_draft ''2025-02-01 00:00:00''
       = (Inr (updated_record ?old dune_draft ''2025-02-01 00:00:00'' ?old),
          seeded_db\<lparr>rows := map (\<lambda>r. if book_id r = book_id ?old
                                      then updated_record ?old dune_draft
                                             ''2025-02-01 00:00:00'' r
                                      else r) (rows seeded_db)\<rparr>)"
    by blast
  from update_in_sqlite_server [OF t', where d = seeded_db and seg = "''1''" and old = ?old
      and now = "''2025-02-01 00:00:00''"] b d e
  have 3: "\<exists>r. r \<in> set (rows seeded_db) \<and> book_id r \<noteq> book_id ?old
          \<and> sql_put_book seeded_db ''1'' ?dup ''2025-02-01 00:00:00''
              = (Inl (Rejected 409 (DUPLICATE_ISBN (book_id r))), seeded_db)"
    by blast
  from t a b c d e 1 2 3 show ?thesis by blast
qed

end
